theory Spec2Isabelle
  imports Main
begin

section \<open>The parsed source schema\<close>

text \<open>
  The input of \<^verbatim>\<open>translateSchema\<close> is the tree the external parser delivers. Its shape is
  fixed by the parser's type declarations, which \<^verbatim>\<open>src/main.ts\<close> imports: a schema is a
  list of blocks; a model block holds properties, of which the fields matter; a field has a
  declared type that is a plain name or a call expression (\<open>TFunc\<close>, the same node as
  \<open>VFunction\<close>), two optional flags and an
  optional attribute list; an attribute has a name and optional arguments; an argument
  value is a literal, a call, an array of names, a nested array or a key-value pair.
  Every node carries a tag \<^verbatim>\<open>type\<close>, which the program tests; here the tag is the
  constructor:
  \<^item> \<open>VString\<close>, \<open>VNumber\<close> and \<open>VBoolean\<close> are the literals, \<open>VFunction\<close> is a node tagged
    \<^verbatim>\<open>function\<close> with its name and its parameters, which a call written without any may
    lack (\<open>None\<close>), \<open>VArray\<close> a node tagged \<^verbatim>\<open>array\<close> with its
    \<^verbatim>\<open>args\<close>, \<open>VList\<close> a plain array of values, \<open>VKeyValue\<close> a node tagged \<^verbatim>\<open>keyValue\<close>
    with its key and value;
  \<^item> \<open>PField\<close>, \<open>EEnumerator\<close>, \<open>BModel\<close> and \<open>BEnum\<close> are the nodes tagged \<^verbatim>\<open>field\<close>,
    \<^verbatim>\<open>enumerator\<close>, \<^verbatim>\<open>model\<close> and \<^verbatim>\<open>enum\<close>; \<open>POther\<close>, \<open>EOther\<close> and \<open>BOther\<close> stand for
    every other node (comments, breaks, block attributes, data sources, generators) and
    keep its tag.
  What the program never reads (comments, the group and kind of an attribute, the value
  of an enumerator) is left out. A numeric literal is never inspected, so its value is an
  integer here.

  Names are the identifiers the parser delivers: no name is \<^verbatim>\<open>__proto__\<close> and no name is an
  array index. For such names a JavaScript object that the program uses as a dictionary
  keeps its own keys in insertion order, and storing under a name creates or replaces an
  own key. Reading a name the object does not have as its own still finds the properties
  every object inherits (\<^verbatim>\<open>constructor\<close>, \<^verbatim>\<open>toString\<close>, ...); the lookup in the index of models
  is modelled with them.

  Several record types of the program have a field \<^verbatim>\<open>name\<close>; the selectors here carry the
  record's name (\<open>fieldName\<close>, \<open>modelName\<close>, ...). The pointer's \<^verbatim>\<open>type\<close> and \<^verbatim>\<open>default\<close> are
  \<open>ptype\<close> and \<open>dflt\<close>, the backlink's \<^verbatim>\<open>multi\<close> is \<open>bmulti\<close>, the enum's \<^verbatim>\<open>values\<close> is
  \<open>enumValues\<close>, and the \<^verbatim>\<open>fields\<close> that normalizing adds to a model is \<open>modelFields\<close>.
\<close>

datatype pvalue =
    VString string
  | VNumber int
  | VBoolean bool
  | VFunction string "pvalue list option"
  | VArray "string list"
  | VList "pvalue list"
  | VKeyValue string pvalue

datatype attributeArgument = AttributeArgument (argValue: pvalue)

record attribute =
  attrName :: string
  attrArgs :: "attributeArgument list option"

datatype fieldType = TName string | TFunc string "pvalue list option"

record field =
  fieldName :: string
  fieldType :: fieldType
  array :: "bool option"
  optional :: "bool option"
  attributes :: "attribute list option"

datatype property = PField field | POther string

record model =
  modelName :: string
  properties :: "property list"

record enumerator =
  enumeratorName :: string

datatype enumItem = EEnumerator enumerator | EOther string

record enum =
  enumName :: string
  enumerators :: "enumItem list"

datatype block = BModel model | BEnum enum | BOther string

record schema =
  list :: "block list"

section \<open>The target schema\<close>

datatype pointerKind = Property | Link

record pointerAst =
  kind :: pointerKind
  multi :: bool
  required :: bool
  ptype :: string
  exclusive :: bool
  dflt :: "string option"

record backlinkAst =
  expr :: string
  bmulti :: bool

record objectTypeAst =
  props :: "(string \<times> pointerAst) list"
  links :: "(string \<times> pointerAst) list"
  backlinks :: "(string \<times> backlinkAst) list"
  linkIds :: "string set"

record enumAst =
  enumValues :: "string list"

record schemaAst =
  enums :: "(string \<times> enumAst) list"
  types :: "(string \<times> objectTypeAst) list"

section \<open>JavaScript containers\<close>

text \<open>
  A \<^verbatim>\<open>Map\<close> and a plain object used as a dictionary both keep their keys in insertion
  order: storing under a new key appends an entry, storing under a key already present
  replaces the value where the key stands. Both are association lists here; a lookup by
  own key is \<^const>\<open>map_of\<close>, \<^verbatim>\<open>Object.values\<close> is \<^term>\<open>map snd\<close>, and spreading a \<^verbatim>\<open>Map\<close> gives
  the list itself.
\<close>

fun mapSet :: "(string \<times> 'v) list \<Rightarrow> string \<Rightarrow> 'v \<Rightarrow> (string \<times> 'v) list" where
  "mapSet [] k v = [(k, v)]"
| "mapSet ((k', v') # m) k v =
     (if k' = k then (k, v) # m else (k', v') # mapSet m k v)"

definition mapHas :: "(string \<times> 'v) list \<Rightarrow> string \<Rightarrow> bool" where
  "mapHas m k = (map_of m k \<noteq> None)"

definition objectValues :: "(string \<times> 'v) list \<Rightarrow> 'v list" where
  "objectValues m = map snd m"

text \<open>
  Reading \<^verbatim>\<open>obj[name]\<close> on a plain object: the value under an own key, else the property of
  that name that every object inherits from the prototype of objects (a function, or the
  prototype itself for \<^verbatim>\<open>__proto__\<close>: a value that counts as true and is no entry of the
  dictionary), else \<^verbatim>\<open>undefined\<close>.
\<close>

datatype 'v jsProperty = Own 'v | Inherited | Absent

definition objectPrototypeKeys :: "string list" where
  "objectPrototypeKeys =
     [''constructor'', ''hasOwnProperty'', ''isPrototypeOf'', ''propertyIsEnumerable'',
      ''toLocaleString'', ''toString'', ''valueOf'', ''__defineGetter__'',
      ''__defineSetter__'', ''__lookupGetter__'', ''__lookupSetter__'', ''__proto__'']"

definition objectGet :: "(string \<times> 'v) list \<Rightarrow> string \<Rightarrow> 'v jsProperty" where
  "objectGet obj name =
     (case map_of obj name of
        Some v \<Rightarrow> Own v
      | None \<Rightarrow> if name \<in> set objectPrototypeKeys then Inherited else Absent)"

text \<open>An optional boolean flag read as a condition: \<^verbatim>\<open>undefined\<close> counts as false.\<close>

fun truthy :: "bool option \<Rightarrow> bool" where
  "truthy None = False"
| "truthy (Some b) = b"

text \<open>\<^verbatim>\<open>Array.prototype.join\<close> on an array of strings.\<close>

fun join :: "string \<Rightarrow> string list \<Rightarrow> string" where
  "join sep [] = []"
| "join sep [x] = x"
| "join sep (x # y # ys) = x @ sep @ join sep (y # ys)"

text \<open>
  \<^verbatim>\<open>JSON.stringify\<close> on a string, as the language standard defines the quoting of a string:
  the text between double quotes, with the double quote and the backslash escaped, the
  control characters below \<^verbatim>\<open>0x20\<close> written by their short escape or as \<^verbatim>\<open>\u00XX\<close>, and every
  other character unchanged.
\<close>

definition hexDigit :: "nat \<Rightarrow> char" where
  "hexDigit n = ''0123456789abcdef'' ! (n mod 16)"

definition quoteJSONChar :: "char \<Rightarrow> string" where
  "quoteJSONChar c =
     (if c = CHR 0x08 then [CHR 0x5C, CHR ''b'']
      else if c = CHR 0x09 then [CHR 0x5C, CHR ''t'']
      else if c = CHR 0x0A then [CHR 0x5C, CHR ''n'']
      else if c = CHR 0x0C then [CHR 0x5C, CHR ''f'']
      else if c = CHR 0x0D then [CHR 0x5C, CHR ''r'']
      else if c = CHR 0x22 then [CHR 0x5C, CHR 0x22]
      else if c = CHR 0x5C then [CHR 0x5C, CHR 0x5C]
      else if (of_char c :: nat) < 0x20
        then [CHR 0x5C, CHR ''u'', CHR ''0'', CHR ''0'',
              hexDigit ((of_char c :: nat) div 16), hexDigit (of_char c :: nat)]
      else [c])"

definition JSON_stringify :: "string \<Rightarrow> string" where
  "JSON_stringify s = [CHR 0x22] @ concat (map quoteJSONChar s) @ [CHR 0x22]"

section \<open>Errors\<close>

text \<open>
  Every \<^verbatim>\<open>throw\<close> of the program is a value. The program throws plain errors told apart by
  their message; the kinds are named as the specification names them:
  \<^item> \<^verbatim>\<open>no target for link ...\<close> is \<open>MissingRelationTargetError\<close>;
  \<^item> \<^verbatim>\<open>multiple possible backlinks\<close> is \<open>AmbiguousBacklinkError\<close>;
  \<^item> \<^verbatim>\<open>not supported: composite ids\<close> is \<open>UnsupportedCompositeKeyError\<close>;
  \<^item> \<^verbatim>\<open>unknown type '...'\<close> is \<open>UnknownScalarTypeError\<close>;
  \<^item> \<^verbatim>\<open>unknown 'Func' type '...'\<close> is \<open>FunctionTypeUnsupportedError\<close>.
  \<open>JsTypeError\<close> is the run-time error of the language: reading \<^verbatim>\<open>.length\<close> of \<^verbatim>\<open>undefined\<close>,
  when the value under the key \<^verbatim>\<open>fields\<close> of a relation attribute is not an array of names,
  listing the values of \<^verbatim>\<open>undefined\<close>, when the declared type of a field is the name of
  an inherited property of the index of models, and mapping over \<^verbatim>\<open>undefined\<close>, when the
  message for a declared type that is a call expression is built from a call node that
  has no parameters.
\<close>

datatype error =
    MissingRelationTargetError
  | AmbiguousBacklinkError
  | UnsupportedCompositeKeyError
  | UnknownScalarTypeError
  | FunctionTypeUnsupportedError
  | JsTypeError

section \<open>Normalizing the schema\<close>

text \<open>
  The first \<^verbatim>\<open>reduce\<close> of \<^verbatim>\<open>translateSchema\<close> indexes the models by name, the fields of each
  model by name and the attributes of each field by name. A field with no attribute list
  gets an empty array for its \<^verbatim>\<open>attrs\<close>. The program reads \<^verbatim>\<open>attrs\<close> under the names
  \<^verbatim>\<open>relation\<close>, \<^verbatim>\<open>unique\<close> and \<^verbatim>\<open>default\<close> only, which neither an object nor an array
  inherits, so these reads are lookups by own key.
\<close>

record extendedField = field +
  attrs :: "(string \<times> attribute) list"

record extendedModel = model +
  modelFields :: "(string \<times> extendedField) list"

definition reduceAttributes :: "attribute list \<Rightarrow> (string \<times> attribute) list" where
  "reduceAttributes as = foldl (\<lambda>attrs attr. mapSet attrs (attrName attr) attr) [] as"

definition extendField :: "field \<Rightarrow> extendedField" where
  "extendField prop = field.extend prop
     (extendedField.fields
        (case attributes prop of None \<Rightarrow> [] | Some as \<Rightarrow> reduceAttributes as))"

definition reduceProperties :: "property list \<Rightarrow> (string \<times> extendedField) list" where
  "reduceProperties ps =
     foldl (\<lambda>fields prop.
              case prop of
                PField f \<Rightarrow> mapSet fields (fieldName f) (extendField f)
              | POther _ \<Rightarrow> fields) [] ps"

definition extendModel :: "model \<Rightarrow> extendedModel" where
  "extendModel m = model.extend m (extendedModel.fields (reduceProperties (properties m)))"

definition reduceModels :: "block list \<Rightarrow> (string \<times> extendedModel) list" where
  "reduceModels bs =
     foldl (\<lambda>models b.
              case b of
                BModel m \<Rightarrow> mapSet models (modelName m) (extendModel m)
              | _ \<Rightarrow> models) [] bs"

section \<open>Scalar types and defaults\<close>

definition typeMapping :: "(string \<times> string) list" where
  "typeMapping =
     [(''String'', ''str''),
      (''Boolean'', ''bool''),
      (''Int'', ''int32''),
      (''BigInt'', ''int64''),
      (''Float'', ''float64''),
      (''Decimal'', ''decimal''),
      (''DateTime'', ''datetime''),
      (''Json'', ''json''),
      (''Bytes'', ''bytes'')]"

text \<open>
  The table is a plain object too. \<^verbatim>\<open>mapPrismaTypeToEdgeDBScalar\<close> is called with a name only
  when \<^verbatim>\<open>isLink\<close> found nothing under it in the index of models, neither own nor inherited,
  so the lookup in the table never meets an inherited property; the table is read by its
  own keys. For a call expression the program builds the message of its error from the
  parameters of the call, \<^verbatim>\<open>type.params.map(...)\<close>: with a parameter list the error is
  thrown, without one building the message is itself a run-time error.
\<close>

definition mapPrismaTypeToEdgeDBScalar :: "fieldType \<Rightarrow> error + string" where
  "mapPrismaTypeToEdgeDBScalar t =
     (case t of
        TFunc _ None \<Rightarrow> Inl JsTypeError
      | TFunc _ (Some params) \<Rightarrow> Inl FunctionTypeUnsupportedError
      | TName n \<Rightarrow>
          (case map_of typeMapping n of
             None \<Rightarrow> Inl UnknownScalarTypeError
           | Some edbType \<Rightarrow> Inr edbType))"

text \<open>
  \<^verbatim>\<open>field.attrs["default"]?.args?.[0]\<close>: the first argument of the attribute named
  \<^verbatim>\<open>default\<close>, or nothing when the attribute, its argument list or its first argument is
  missing.
\<close>

definition defaultArgument :: "extendedField \<Rightarrow> attributeArgument option" where
  "defaultArgument field =
     (case map_of (attrs field) ''default'' of
        None \<Rightarrow> None
      | Some a \<Rightarrow>
          (case attrArgs a of
             None \<Rightarrow> None
           | Some [] \<Rightarrow> None
           | Some (d # _) \<Rightarrow> Some d))"

definition getFieldDefault :: "schemaAst \<Rightarrow> extendedField \<Rightarrow> string option" where
  "getFieldDefault schema field =
     (case defaultArgument field of
        None \<Rightarrow> None
      | Some d \<Rightarrow>
          (case argValue d of
             VString v \<Rightarrow>
               (case fieldType field of
                  TName t \<Rightarrow>
                    if mapHas (enums schema) t then Some (t @ ''.'' @ v)
                    else if t = ''String'' then Some (JSON_stringify v)
                    else if t = ''Boolean'' then Some v
                    else None
                | TFunc _ _ \<Rightarrow> None)
           | VFunction name _ \<Rightarrow>
               if name = ''now'' then Some ''datetime_current()''
               else if name = ''uuid'' then Some ''uuid_generate_v4()''
               else None
           | _ \<Rightarrow> None))"

section \<open>Translating enums\<close>

fun enumBlocks :: "block list \<Rightarrow> enum list" where
  "enumBlocks [] = []"
| "enumBlocks (BEnum e # bs) = e # enumBlocks bs"
| "enumBlocks (_ # bs) = enumBlocks bs"

fun enumeratorItems :: "enumItem list \<Rightarrow> enumerator list" where
  "enumeratorItems [] = []"
| "enumeratorItems (EEnumerator e # es) = e # enumeratorItems es"
| "enumeratorItems (_ # es) = enumeratorItems es"

definition translateEnums :: "block list \<Rightarrow> (string \<times> enumAst) list" where
  "translateEnums bs =
     foldl (\<lambda>m enumBlock.
              mapSet m (enumName enumBlock)
                \<lparr>enumValues = map enumeratorName (enumeratorItems (enumerators enumBlock))\<rparr>)
       [] (enumBlocks bs)"

section \<open>Classifying one field\<close>

text \<open>
  The candidates for the other end of a relation: the fields of the target model that
  carry an attribute named \<^verbatim>\<open>relation\<close> and whose declared type is the name of the model
  being translated.
\<close>

definition linkPair :: "extendedModel \<Rightarrow> extendedModel \<Rightarrow> extendedField list" where
  "linkPair target model =
     filter (\<lambda>field. map_of (attrs field) ''relation'' \<noteq> None
                      \<and> fieldType field = TName (modelName model))
       (objectValues (modelFields target))"

fun isFieldsArgument :: "attributeArgument \<Rightarrow> bool" where
  "isFieldsArgument (AttributeArgument (VKeyValue k v)) = (k = ''fields'')"
| "isFieldsArgument _ = False"

text \<open>
  \<^verbatim>\<open>idFields\<close>: the value of the first argument of the relation attribute that is a
  key-value pair under the key \<^verbatim>\<open>fields\<close>, or nothing.
\<close>

definition idFields :: "extendedField \<Rightarrow> pvalue option" where
  "idFields field =
     (case map_of (attrs field) ''relation'' of
        None \<Rightarrow> None
      | Some a \<Rightarrow>
          (case attrArgs a of
             None \<Rightarrow> None
           | Some args \<Rightarrow> map_option argValue (find isFieldsArgument args)))"

text \<open>
  The id field named by the relation goes into \<^verbatim>\<open>linkIds\<close>. Any number of names other than
  one is refused; a value that is not an array of names has no \<^verbatim>\<open>args\<close>, and reading the
  length fails.
\<close>

definition recordLinkIds :: "extendedField \<Rightarrow> objectTypeAst \<Rightarrow> error + objectTypeAst" where
  "recordLinkIds field edbType =
     (case idFields field of
        None \<Rightarrow> Inr edbType
      | Some (VKeyValue _ (VArray args)) \<Rightarrow>
          if length args \<noteq> 1 then Inl UnsupportedCompositeKeyError
          else Inr (edbType\<lparr>linkIds := insert (args ! 0) (linkIds edbType)\<rparr>)
      | Some _ \<Rightarrow> Inl JsTypeError)"

text \<open>
  The type of the pointer of a field that is not a backlink: the declared name when the
  field is a link or the name is an enum of the target schema, and the scalar the table
  gives otherwise.
\<close>

definition pointerType :: "schemaAst \<Rightarrow> bool \<Rightarrow> extendedField \<Rightarrow> error + string" where
  "pointerType edbSchema isLink field =
     (case fieldType field of
        TName t \<Rightarrow>
          if isLink \<or> mapHas (enums edbSchema) t then Inr t
          else mapPrismaTypeToEdgeDBScalar (TName t)
      | TFunc n ps \<Rightarrow> mapPrismaTypeToEdgeDBScalar (TFunc n ps))"

text \<open>
  \<^verbatim>\<open>edbPointer\<close>: the pointer of a field that is not a backlink. The only failure is that of
  its type.
\<close>

definition edbPointer :: "schemaAst \<Rightarrow> bool \<Rightarrow> extendedField \<Rightarrow> error + pointerAst" where
  "edbPointer edbSchema isLink field =
     (case pointerType edbSchema isLink field of
        Inl e \<Rightarrow> Inl e
      | Inr ty \<Rightarrow>
          Inr \<lparr>kind = (if isLink then Link else Property),
               multi = truthy (array field),
               required = (if truthy (array field) then False else \<not> truthy (optional field)),
               ptype = ty,
               exclusive = (map_of (attrs field) ''unique'' \<noteq> None),
               dflt = getFieldDefault edbSchema field\<rparr>)"

text \<open>
  The end of the loop body: the pointer is stored under the field's name, in \<^verbatim>\<open>links\<close>
  for a link and in \<^verbatim>\<open>props\<close> otherwise.
\<close>

definition storePointer ::
  "schemaAst \<Rightarrow> bool \<Rightarrow> objectTypeAst \<Rightarrow> extendedField \<Rightarrow> error + objectTypeAst" where
  "storePointer edbSchema isLink edbType field =
     (case edbPointer edbSchema isLink field of
        Inl e \<Rightarrow> Inl e
      | Inr p \<Rightarrow>
          Inr (if isLink
               then edbType\<lparr>links := mapSet (links edbType) (fieldName field) p\<rparr>
               else edbType\<lparr>props := mapSet (props edbType) (fieldName field) p\<rparr>))"

text \<open>
  \<^verbatim>\<open>isLink\<close>: what the index of models has under the declared type, or nothing when the
  type is a call expression. The field is taken for a link when this counts as true.
\<close>

definition isLink ::
  "(string \<times> extendedModel) list \<Rightarrow> extendedField \<Rightarrow> extendedModel jsProperty" where
  "isLink models field =
     (case fieldType field of TName t \<Rightarrow> objectGet models t | TFunc _ _ \<Rightarrow> Absent)"

text \<open>
  The body of the loop over the fields of a model. Under \<^verbatim>\<open>isLink\<close> the program looks the
  target up again and throws when there is none; the branch is kept as it is written. A
  target that is an inherited property has no \<^verbatim>\<open>fields\<close>, and listing the values of
  \<^verbatim>\<open>undefined\<close> is a run-time error.
\<close>

definition translateField ::
  "(string \<times> extendedModel) list \<Rightarrow> schemaAst \<Rightarrow> extendedModel \<Rightarrow> objectTypeAst
     \<Rightarrow> extendedField \<Rightarrow> error + objectTypeAst" where
  "translateField models edbSchema model edbType field =
     (case isLink models field of
        Absent \<Rightarrow> storePointer edbSchema False edbType field
      | _ \<Rightarrow>
          (case (case fieldType field of TName t \<Rightarrow> objectGet models t | TFunc _ _ \<Rightarrow> Absent) of
             Absent \<Rightarrow> Inl MissingRelationTargetError
           | Inherited \<Rightarrow> Inl JsTypeError
           | Own target \<Rightarrow>
               if length (linkPair target model) > 1 then Inl AmbiguousBacklinkError
               else
                 (case linkPair target model of
                    g # _ \<Rightarrow>
                      Inr (edbType\<lparr>backlinks :=
                             mapSet (backlinks edbType) (fieldName field)
                               \<lparr>expr = ''.<'' @ fieldName g @ ''[is '' @ modelName target @ ''];'',
                                bmulti = truthy (array field)\<rparr>\<rparr>)
                  | [] \<Rightarrow>
                      (case recordLinkIds field edbType of
                         Inl e \<Rightarrow> Inl e
                       | Inr edbType' \<Rightarrow> storePointer edbSchema True edbType' field))))"

section \<open>Translating the schema\<close>

fun translateFields ::
  "(string \<times> extendedModel) list \<Rightarrow> schemaAst \<Rightarrow> extendedModel \<Rightarrow> objectTypeAst
     \<Rightarrow> extendedField list \<Rightarrow> error + objectTypeAst" where
  "translateFields models edbSchema model edbType [] = Inr edbType"
| "translateFields models edbSchema model edbType (field # rest) =
     (case translateField models edbSchema model edbType field of
        Inl e \<Rightarrow> Inl e
      | Inr edbType' \<Rightarrow> translateFields models edbSchema model edbType' rest)"

definition emptyObjectType :: objectTypeAst where
  "emptyObjectType = \<lparr>props = [], links = [], backlinks = [], linkIds = {}\<rparr>"

text \<open>
  The loop over the models. The program stores the empty type under the model's name and
  then fills it in place; nothing reads the stored types before the loop is over, so the
  type is stored here once its fields are done.
\<close>

fun translateModels ::
  "(string \<times> extendedModel) list \<Rightarrow> schemaAst \<Rightarrow> extendedModel list \<Rightarrow> error + schemaAst" where
  "translateModels models edbSchema [] = Inr edbSchema"
| "translateModels models edbSchema (model # rest) =
     (case translateFields models edbSchema model emptyObjectType
             (objectValues (modelFields model)) of
        Inl e \<Rightarrow> Inl e
      | Inr edbType \<Rightarrow>
          translateModels models
            (edbSchema\<lparr>types := mapSet (types edbSchema) (modelName model) edbType\<rparr>) rest)"

definition translateSchema :: "schema \<Rightarrow> error + schemaAst" where
  "translateSchema schema =
     translateModels (reduceModels (list schema))
       \<lparr>enums = translateEnums (list schema), types = []\<rparr>
       (objectValues (reduceModels (list schema)))"

section \<open>Rendering\<close>

definition renderEnum :: "string \<times> enumAst \<Rightarrow> string" where
  "renderEnum = (\<lambda>(name, enumType).
     ''  scalar type '' @ name @ '' extending enum<'' @ join '', '' (enumValues enumType) @ ''>;'')"

definition pointerAttrs :: "pointerAst \<Rightarrow> string list" where
  "pointerAttrs pointer =
     (if exclusive pointer then [''      constraint exclusive;''] else []) @
     (case dflt pointer of
        Some d \<Rightarrow> [''      default := '' @ d @ '';'']
      | None \<Rightarrow> [])"

definition renderPointer :: "string \<times> pointerAst \<Rightarrow> string" where
  "renderPointer = (\<lambda>(name, pointer).
     ''    '' @ (if required pointer then ''required '' else []) @
     (if multi pointer then ''multi '' else []) @
     (case kind pointer of Property \<Rightarrow> ''property'' | Link \<Rightarrow> ''link'') @
     '' '' @ name @ '' -> '' @ ptype pointer @
     (if pointerAttrs pointer \<noteq> []
      then '' {\<newline>'' @ join ''\<newline>'' (pointerAttrs pointer) @ ''\<newline>    }''
      else []) @
     '';'')"

definition renderBacklink :: "string \<times> backlinkAst \<Rightarrow> string" where
  "renderBacklink = (\<lambda>(name, backlink).
     ''    '' @ (if bmulti backlink then ''multi '' else []) @ ''link '' @ name @ '' := '' @
     expr backlink)"

text \<open>The stored pointers that are rendered: those whose name is not in \<^verbatim>\<open>linkIds\<close>.\<close>

definition renderedPointers :: "objectTypeAst \<Rightarrow> (string \<times> pointerAst) list" where
  "renderedPointers objType =
     filter (\<lambda>(name, _). name \<notin> linkIds objType) (props objType @ links objType)"

definition renderType :: "string \<times> objectTypeAst \<Rightarrow> string" where
  "renderType = (\<lambda>(name, objType).
     ''  type '' @ name @ '' {\<newline>'' @
     join ''\<newline>''
       (map renderPointer (renderedPointers objType) @ map renderBacklink (backlinks objType)) @
     ''\<newline>  }'')"

definition renderSchemaAst :: "schemaAst \<Rightarrow> string" where
  "renderSchemaAst schema =
     ''module default {\<newline>'' @
     join ''\<newline>\<newline>'' (map renderEnum (enums schema) @ map renderType (types schema)) @
     ''\<newline>}\<newline>''"

section \<open>Notions used in the statements and proofs\<close>

text \<open>
  An index is keyed by a name when its keys are distinct and every entry stands under the
  name of its value.
\<close>

definition keyed :: "('v \<Rightarrow> string) \<Rightarrow> (string \<times> 'v) list \<Rightarrow> bool" where
  "keyed nm m = (distinct (map fst m) \<and> (\<forall>(k, v) \<in> set m. nm v = k))"

definition wfModel :: "extendedModel \<Rightarrow> bool" where
  "wfModel m = keyed fieldName (modelFields m)"

text \<open>
  The translation stops at the first field that fails. The fields of a model that come
  before the field named \<open>n\<close>, the models that come before the model named \<open>a\<close>, and the
  condition that the translation gets as far as field \<open>n\<close> of model \<open>a\<close>: every model
  before \<open>a\<close> and every field of \<open>a\<close> before \<open>n\<close> translates without an error.
\<close>

definition fieldsBefore :: "extendedModel \<Rightarrow> string \<Rightarrow> extendedField list" where
  "fieldsBefore model n = takeWhile (\<lambda>f. fieldName f \<noteq> n) (objectValues (modelFields model))"

definition modelsBefore :: "(string \<times> extendedModel) list \<Rightarrow> string \<Rightarrow> extendedModel list" where
  "modelsBefore models a = takeWhile (\<lambda>m. modelName m \<noteq> a) (objectValues models)"

definition reaches :: "schema \<Rightarrow> string \<Rightarrow> string \<Rightarrow> bool" where
  "reaches schema a n =
     (case translateModels (reduceModels (list schema))
             \<lparr>enums = translateEnums (list schema), types = []\<rparr>
             (modelsBefore (reduceModels (list schema)) a) of
        Inl _ \<Rightarrow> False
      | Inr edbSchema \<Rightarrow>
          (case map_of (reduceModels (list schema)) a of
             None \<Rightarrow> False
           | Some model \<Rightarrow>
               (case translateFields (reduceModels (list schema)) edbSchema model emptyObjectType
                        (fieldsBefore model n) of
                  Inl _ \<Rightarrow> False
                | Inr _ \<Rightarrow> True)))"

text \<open>
  A type with the stored pointers of one name taken out of \<open>props\<close> and \<open>links\<close>; the
  backlinks and \<open>linkIds\<close> stay.
\<close>

definition withoutPointer :: "string \<Rightarrow> objectTypeAst \<Rightarrow> objectTypeAst" where
  "withoutPointer i objType =
     objType\<lparr>props := filter (\<lambda>(name, _). name \<noteq> i) (props objType),
             links := filter (\<lambda>(name, _). name \<noteq> i) (links objType)\<rparr>"

text \<open>A character that \<^verbatim>\<open>JSON.stringify\<close> leaves as it is.\<close>

definition plainChar :: "char \<Rightarrow> bool" where
  "plainChar c = (c \<noteq> CHR 0x22 \<and> c \<noteq> CHR 0x5C \<and> 0x20 \<le> (of_char c :: nat))"

section \<open>Example schemas\<close>

text \<open>
  Model \<open>A\<close> has a field of type \<open>B\<close>, and two fields of \<open>B\<close> carry a relation attribute
  and have type \<open>A\<close>.
\<close>

definition exE_f :: field where
  "exE_f = \<lparr>fieldName = ''f'', fieldType = TName ''B'', array = None, optional = None,
            attributes = None\<rparr>"

definition exE_g1 :: field where
  "exE_g1 = \<lparr>fieldName = ''g1'', fieldType = TName ''A'', array = None, optional = None,
             attributes = Some [\<lparr>attrName = ''relation'', attrArgs = None\<rparr>]\<rparr>"

definition exE_g2 :: field where
  "exE_g2 = \<lparr>fieldName = ''g2'', fieldType = TName ''A'', array = None, optional = None,
             attributes = Some [\<lparr>attrName = ''relation'', attrArgs = None\<rparr>]\<rparr>"

definition exE_A :: model where
  "exE_A = \<lparr>modelName = ''A'', properties = [PField exE_f]\<rparr>"

definition exE_B :: model where
  "exE_B = \<lparr>modelName = ''B'', properties = [PField exE_g1, PField exE_g2]\<rparr>"

definition exE :: schema where
  "exE = \<lparr>list = [BModel exE_A, BModel exE_B]\<rparr>"

text \<open>A model with one field whose declared type names nothing that is declared.\<close>

definition exF_x :: field where
  "exF_x = \<lparr>fieldName = ''x'', fieldType = TName ''Foo'', array = None, optional = None,
            attributes = None\<rparr>"

definition exF_A :: model where
  "exF_A = \<lparr>modelName = ''A'', properties = [PField exF_x]\<rparr>"

definition exF :: schema where
  "exF = \<lparr>list = [BModel exF_A]\<rparr>"

text \<open>
  An enum \<open>Role\<close> and a model \<open>User\<close> with a numeric id, a unique string and a field of the
  enum's type that has a default.
\<close>

definition exA_id :: field where
  "exA_id = \<lparr>fieldName = ''id'', fieldType = TName ''Int'', array = None, optional = None,
             attributes = None\<rparr>"

definition exA_email :: field where
  "exA_email = \<lparr>fieldName = ''email'', fieldType = TName ''String'', array = None,
                optional = None,
                attributes = Some [\<lparr>attrName = ''unique'', attrArgs = None\<rparr>]\<rparr>"

definition exA_role :: field where
  "exA_role = \<lparr>fieldName = ''role'', fieldType = TName ''Role'', array = None, optional = None,
               attributes = Some [\<lparr>attrName = ''default'',
                                   attrArgs = Some [AttributeArgument (VString ''USER'')]\<rparr>]\<rparr>"

definition exA_User :: model where
  "exA_User = \<lparr>modelName = ''User'',
               properties = [PField exA_id, PField exA_email, POther ''break'', PField exA_role]\<rparr>"

definition exA_Role :: enum where
  "exA_Role = \<lparr>enumName = ''Role'',
               enumerators = [EEnumerator \<lparr>enumeratorName = ''USER''\<rparr>, EOther ''comment'',
                              EEnumerator \<lparr>enumeratorName = ''ADMIN''\<rparr>]\<rparr>"

definition exA :: schema where
  "exA = \<lparr>list = [BOther ''datasource'', BModel exA_User, BEnum exA_Role]\<rparr>"

definition exA_out :: schemaAst where
  "exA_out =
     \<lparr>enums = [(''Role'', \<lparr>enumValues = [''USER'', ''ADMIN'']\<rparr>)],
      types = [(''User'',
        \<lparr>props =
           [(''id'', \<lparr>kind = Property, multi = False, required = True, ptype = ''int32'',
                      exclusive = False, dflt = None\<rparr>),
            (''email'', \<lparr>kind = Property, multi = False, required = True, ptype = ''str'',
                         exclusive = True, dflt = None\<rparr>),
            (''role'', \<lparr>kind = Property, multi = False, required = True, ptype = ''Role'',
                        exclusive = False, dflt = Some ''Role.USER''\<rparr>)],
         links = [], backlinks = [], linkIds = {}\<rparr>)]\<rparr>"




text \<open>
  A user has many posts; a post names its author through the id field \<open>authorId\<close> and has
  a list of tags. The relation attribute stands on the post's side only.
\<close>

definition exD_id :: field where
  "exD_id = \<lparr>fieldName = ''id'', fieldType = TName ''Int'', array = None, optional = None,
             attributes = None\<rparr>"

definition exD_posts :: field where
  "exD_posts = \<lparr>fieldName = ''posts'', fieldType = TName ''Post'', array = Some True,
                optional = None, attributes = None\<rparr>"

definition exD_author :: field where
  "exD_author = \<lparr>fieldName = ''author'', fieldType = TName ''User'', array = None,
                 optional = None,
                 attributes = Some [\<lparr>attrName = ''relation'',
                   attrArgs = Some [AttributeArgument (VKeyValue ''fields'' (VArray [''authorId''])),
                                    AttributeArgument (VKeyValue ''references'' (VArray [''id'']))]\<rparr>]\<rparr>"

definition exD_authorId :: field where
  "exD_authorId = \<lparr>fieldName = ''authorId'', fieldType = TName ''Int'', array = None,
                   optional = None, attributes = None\<rparr>"

definition exD_tags :: field where
  "exD_tags = \<lparr>fieldName = ''tags'', fieldType = TName ''String'', array = Some True,
               optional = None, attributes = None\<rparr>"

definition exD_note :: field where
  "exD_note = \<lparr>fieldName = ''note'', fieldType = TName ''String'', array = None,
               optional = Some True, attributes = None\<rparr>"

definition exD_User :: model where
  "exD_User = \<lparr>modelName = ''User'', properties = [PField exD_id, PField exD_posts]\<rparr>"

definition exD_Post :: model where
  "exD_Post = \<lparr>modelName = ''Post'',
               properties = [PField exD_id, PField exD_author, PField exD_authorId,
                             PField exD_tags, PField exD_note]\<rparr>"

definition exD :: schema where
  "exD = \<lparr>list = [BModel exD_User, BModel exD_Post]\<rparr>"

definition exD_UserType :: objectTypeAst where
  "exD_UserType =
     \<lparr>props = [(''id'', \<lparr>kind = Property, multi = False, required = True, ptype = ''int32'',
                         exclusive = False, dflt = None\<rparr>)],
      links = [],
      backlinks = [(''posts'', \<lparr>expr = ''.<author[is Post];'', bmulti = True\<rparr>)],
      linkIds = {}\<rparr>"

definition exD_PostType :: objectTypeAst where
  "exD_PostType =
     \<lparr>props = [(''id'', \<lparr>kind = Property, multi = False, required = True, ptype = ''int32'',
                         exclusive = False, dflt = None\<rparr>),
               (''authorId'', \<lparr>kind = Property, multi = False, required = True,
                               ptype = ''int32'', exclusive = False, dflt = None\<rparr>),
               (''tags'', \<lparr>kind = Property, multi = True, required = False, ptype = ''str'',
                           exclusive = False, dflt = None\<rparr>),
               (''note'', \<lparr>kind = Property, multi = False, required = False, ptype = ''str'',
                           exclusive = False, dflt = None\<rparr>)],
      links = [(''author'', \<lparr>kind = Link, multi = False, required = True, ptype = ''User'',
                             exclusive = False, dflt = None\<rparr>)],
      backlinks = [],
      linkIds = {''authorId''}\<rparr>"

definition exD_out :: schemaAst where
  "exD_out = \<lparr>enums = [], types = [(''User'', exD_UserType), (''Post'', exD_PostType)]\<rparr>"

text \<open>A post whose relation to its author names two id fields.\<close>

definition exC_author :: field where
  "exC_author = \<lparr>fieldName = ''author'', fieldType = TName ''User'', array = None,
                 optional = None,
                 attributes = Some [\<lparr>attrName = ''relation'',
                   attrArgs = Some [AttributeArgument
                                      (VKeyValue ''fields'' (VArray [''firstName'', ''lastName'']))]\<rparr>]\<rparr>"

definition exC_Post :: model where
  "exC_Post = \<lparr>modelName = ''Post'', properties = [PField exC_author]\<rparr>"

definition exC_User :: model where
  "exC_User = \<lparr>modelName = ''User'', properties = []\<rparr>"

definition exC :: schema where
  "exC = \<lparr>list = [BModel exC_Post, BModel exC_User]\<rparr>"

text \<open>
  A post whose relation to its author names an id field that the post does not declare.
\<close>

definition exH_author :: field where
  "exH_author = \<lparr>fieldName = ''author'', fieldType = TName ''User'', array = None,
                 optional = None,
                 attributes = Some [\<lparr>attrName = ''relation'',
                   attrArgs = Some [AttributeArgument
                                      (VKeyValue ''fields'' (VArray [''authorId'']))]\<rparr>]\<rparr>"

definition exH_id :: field where
  "exH_id = \<lparr>fieldName = ''id'', fieldType = TName ''Int'', array = None, optional = None,
             attributes = None\<rparr>"

definition exH_Post :: model where
  "exH_Post = \<lparr>modelName = ''Post'', properties = [PField exH_author]\<rparr>"

definition exH_User :: model where
  "exH_User = \<lparr>modelName = ''User'', properties = [PField exH_id]\<rparr>"

definition exH :: schema where
  "exH = \<lparr>list = [BModel exH_Post, BModel exH_User]\<rparr>"

definition exH_PostType :: objectTypeAst where
  "exH_PostType =
     \<lparr>props = [],
      links = [(''author'', \<lparr>kind = Link, multi = False, required = True, ptype = ''User'',
                             exclusive = False, dflt = None\<rparr>)],
      backlinks = [],
      linkIds = {''authorId''}\<rparr>"

definition exH_UserType :: objectTypeAst where
  "exH_UserType =
     \<lparr>props = [(''id'', \<lparr>kind = Property, multi = False, required = True, ptype = ''int32'',
                         exclusive = False, dflt = None\<rparr>)],
      links = [], backlinks = [], linkIds = {}\<rparr>"

definition exH_out :: schemaAst where
  "exH_out = \<lparr>enums = [], types = [(''Post'', exH_PostType), (''User'', exH_UserType)]\<rparr>"

text \<open>A field of a given name and type whose only attribute is a default with one argument.\<close>

definition defaultField :: "string \<Rightarrow> fieldType \<Rightarrow> pvalue \<Rightarrow> extendedField" where
  "defaultField n t v =
     extendField \<lparr>fieldName = n, fieldType = t, array = None, optional = None,
                  attributes = Some [\<lparr>attrName = ''default'',
                                      attrArgs = Some [AttributeArgument v]\<rparr>]\<rparr>"

text \<open>
  Model \<open>A\<close> owns a relation to \<open>B\<close> that names \<open>c\<close> as its id field, and \<open>c\<close> is itself
  a field of \<open>A\<close> that is found from model \<open>C\<close> through the field \<open>g\<close>.
\<close>

definition exB_b :: field where
  "exB_b = \<lparr>fieldName = ''b'', fieldType = TName ''B'', array = None, optional = None,
            attributes = Some [\<lparr>attrName = ''relation'',
              attrArgs = Some [AttributeArgument (VKeyValue ''fields'' (VArray [''c'']))]\<rparr>]\<rparr>"

definition exB_c :: field where
  "exB_c = \<lparr>fieldName = ''c'', fieldType = TName ''C'', array = None, optional = None,
            attributes = None\<rparr>"

definition exB_g :: field where
  "exB_g = \<lparr>fieldName = ''g'', fieldType = TName ''A'', array = None, optional = None,
            attributes = Some [\<lparr>attrName = ''relation'', attrArgs = None\<rparr>]\<rparr>"

definition exB_A :: model where
  "exB_A = \<lparr>modelName = ''A'', properties = [PField exB_b, PField exB_c]\<rparr>"

definition exB_B :: model where
  "exB_B = \<lparr>modelName = ''B'', properties = []\<rparr>"

definition exB_C :: model where
  "exB_C = \<lparr>modelName = ''C'', properties = [PField exB_g]\<rparr>"

definition exB :: schema where
  "exB = \<lparr>list = [BModel exB_A, BModel exB_B, BModel exB_C]\<rparr>"

definition exB_AType :: objectTypeAst where
  "exB_AType =
     \<lparr>props = [],
      links = [(''b'', \<lparr>kind = Link, multi = False, required = True, ptype = ''B'',
                        exclusive = False, dflt = None\<rparr>)],
      backlinks = [(''c'', \<lparr>expr = ''.<g[is C];'', bmulti = False\<rparr>)],
      linkIds = {''c''}\<rparr>"

definition exB_out :: schemaAst where
  "exB_out =
     \<lparr>enums = [],
      types = [(''A'', exB_AType),
               (''B'', emptyObjectType),
               (''C'', \<lparr>props = [],
                         links = [(''g'', \<lparr>kind = Link, multi = False, required = True,
                                           ptype = ''A'', exclusive = False, dflt = None\<rparr>)],
                         backlinks = [], linkIds = {}\<rparr>)]\<rparr>"

text \<open>An enum named as a property that every object inherits, and a field of that type.\<close>

definition exT_f :: field where
  "exT_f = \<lparr>fieldName = ''f'', fieldType = TName ''toString'', array = None, optional = None,
            attributes = None\<rparr>"

definition exT_M :: model where
  "exT_M = \<lparr>modelName = ''M'', properties = [PField exT_f]\<rparr>"

definition exT_enum :: enum where
  "exT_enum = \<lparr>enumName = ''toString'',
               enumerators = [EEnumerator \<lparr>enumeratorName = ''A''\<rparr>]\<rparr>"

definition exT :: schema where
  "exT = \<lparr>list = [BEnum exT_enum, BModel exT_M]\<rparr>"

text \<open>
  A field whose declared type names nothing declared but a property that every object
  inherits, and a field whose declared type is a call without parameters.
\<close>

definition exV_f :: field where
  "exV_f = \<lparr>fieldName = ''f'', fieldType = TName ''valueOf'', array = None, optional = None,
            attributes = None\<rparr>"

definition exV :: schema where
  "exV = \<lparr>list = [BModel \<lparr>modelName = ''M'', properties = [PField exV_f]\<rparr>]\<rparr>"

definition exN_u :: field where
  "exN_u = \<lparr>fieldName = ''u'', fieldType = TFunc ''Unsupported'' None, array = None,
            optional = None, attributes = None\<rparr>"

definition exN :: schema where
  "exN = \<lparr>list = [BModel \<lparr>modelName = ''M'', properties = [PField exN_u]\<rparr>]\<rparr>"

section \<open>Association lists\<close>

lemma map_of_mapSet: "map_of (mapSet m k v) = (map_of m)(k \<mapsto> v)"
  by (induction m) (auto simp: fun_eq_iff)

lemma keys_mapSet: "map fst (mapSet m k v) = (if k \<in> fst ` set m then map fst m else map fst m @ [k])"
  by (induction m) (auto split: if_splits)

lemma distinct_mapSet: "distinct (map fst m) \<Longrightarrow> distinct (map fst (mapSet m k v))"
  by (simp add: keys_mapSet)

lemma set_mapSet_subset: "set (mapSet m k v) \<subseteq> insert (k, v) (set m)"
  by (induction m) (auto split: if_splits)

lemma fst_set_mapSet: "fst ` set (mapSet m k v) = insert k (fst ` set m)"
proof -
  have "set (map fst (mapSet m k v)) = insert k (set (map fst m))"
    unfolding keys_mapSet by auto
  then show ?thesis by simp
qed

lemma mapHas_iff: "mapHas m k \<longleftrightarrow> k \<in> fst ` set m"
  by (simp add: mapHas_def map_of_eq_None_iff)

lemma keys_foldl_mapSet:
  "fst ` set (foldl (\<lambda>m e. mapSet m (g e) (h e)) acc es) = fst ` set acc \<union> g ` set es"
  by (induction es arbitrary: acc) (auto simp: fst_set_mapSet)

lemma map_of_foldl_mapSet_other:
  "k \<notin> g ` set es \<Longrightarrow>
   map_of (foldl (\<lambda>m e. mapSet m (g e) (h e)) acc es) k = map_of acc k"
  by (induction es arbitrary: acc) (auto simp: map_of_mapSet)

lemma map_of_foldl_mapSet_last:
  assumes "g E \<notin> g ` set es2"
  shows "map_of (foldl (\<lambda>m e. mapSet m (g e) (h e)) acc (es1 @ E # es2)) (g E) = Some (h E)"
  using map_of_foldl_mapSet_other[OF assms, of h "mapSet (foldl (\<lambda>m e. mapSet m (g e) (h e)) acc es1) (g E) (h E)"]
  by (simp add: map_of_mapSet)

lemma map_mapSet_same:
  "map_of m k = Some v \<Longrightarrow> f (k, v') = f (k, v) \<Longrightarrow> map f (mapSet m k v') = map f m"
  by (induction m) (auto split: if_splits)

lemma split_at_key:
  assumes "distinct (map g xs)" and "x \<in> set xs"
  shows "\<exists>rest. xs = takeWhile (\<lambda>y. g y \<noteq> g x) xs @ x # rest"
  using assms
proof (induction xs)
  case Nil then show ?case by simp
next
  case (Cons y ys)
  show ?case
  proof (cases "y = x")
    case True then show ?thesis by simp
  next
    case False
    with Cons.prems have "x \<in> set ys" "g y \<noteq> g x" by (auto simp: image_iff)
    with Cons show ?thesis by auto
  qed
qed

lemma join_member:
  "x \<in> set xs \<Longrightarrow> \<exists>pre post. join sep xs = pre @ x @ post"
proof (induction sep xs rule: join.induct)
  case (1 sep) then show ?case by simp
next
  case (2 sep y)
  then have "join sep [y] = [] @ x @ []" by simp
  then show ?case by blast
next
  case (3 sep y z zs)
  show ?case
  proof (cases "x = y")
    case True
    then have "join sep (y # z # zs) = [] @ x @ (sep @ join sep (z # zs))" by simp
    then show ?thesis by blast
  next
    case False
    with 3 obtain pre post where "join sep (z # zs) = pre @ x @ post" by auto
    then have "join sep (y # z # zs) = (y @ sep @ pre) @ x @ post" by simp
    then show ?thesis by blast
  qed
qed

section \<open>The index of models and the enums\<close>

text \<open>
  Normalizing gives an index whose keys are distinct and whose every entry stands under its
  own name, for the models and for the fields of each model.
\<close>

lemma keyed_Nil: "keyed nm []" by (simp add: keyed_def)

lemma keyed_mapSet: "keyed nm m \<Longrightarrow> nm v = k \<Longrightarrow> keyed nm (mapSet m k v)"
  unfolding keyed_def using set_mapSet_subset[of m k v] distinct_mapSet[of m k v] by auto

lemma keyed_values: "keyed nm m \<Longrightarrow> map nm (objectValues m) = map fst m"
  unfolding keyed_def objectValues_def by (induction m) auto

lemma keyed_lookup: "keyed nm m \<Longrightarrow> map_of m k = Some v \<Longrightarrow> nm v = k \<and> v \<in> set (objectValues m)"
  unfolding keyed_def objectValues_def by (auto dest!: map_of_SomeD intro: rev_image_eqI)

lemma keyed_member: "keyed nm m \<Longrightarrow> v \<in> set (objectValues m) \<Longrightarrow> map_of m (nm v) = Some v"
  unfolding keyed_def objectValues_def by auto

lemma fieldName_extendField: "fieldName (extendField f) = fieldName f"
  by (simp add: extendField_def field.defs)

lemma keyed_reduceProperties_aux:
  "keyed fieldName acc \<Longrightarrow>
   keyed fieldName (foldl (\<lambda>fields prop. case prop of PField f \<Rightarrow> mapSet fields (fieldName f) (extendField f) | POther _ \<Rightarrow> fields) acc ps)"
  by (induction ps arbitrary: acc) (auto simp: keyed_mapSet fieldName_extendField split: property.splits)

lemma keyed_reduceProperties: "keyed fieldName (reduceProperties ps)"
  unfolding reduceProperties_def by (rule keyed_reduceProperties_aux[OF keyed_Nil])

lemma modelName_extendModel: "modelName (extendModel m) = modelName m"
  by (simp add: extendModel_def model.defs)

lemma modelFields_extendModel: "modelFields (extendModel m) = reduceProperties (properties m)"
  by (simp add: extendModel_def model.defs extendedModel.defs)

lemma wf_reduceModels_aux:
  "keyed modelName acc \<Longrightarrow> (\<forall>m \<in> set (objectValues acc). wfModel m) \<Longrightarrow>
   keyed modelName (foldl (\<lambda>models b. case b of BModel m \<Rightarrow> mapSet models (modelName m) (extendModel m) | _ \<Rightarrow> models) acc bs)
   \<and> (\<forall>m \<in> set (objectValues (foldl (\<lambda>models b. case b of BModel m \<Rightarrow> mapSet models (modelName m) (extendModel m) | _ \<Rightarrow> models) acc bs)). wfModel m)"
proof (induction bs arbitrary: acc)
  case Nil then show ?case by simp
next
  case (Cons b bs)
  show ?case
  proof (cases b)
    case (BModel m)
    have k: "keyed modelName (mapSet acc (modelName m) (extendModel m))"
      using Cons.prems(1) by (simp add: keyed_mapSet modelName_extendModel)
    have w: "\<forall>x \<in> set (objectValues (mapSet acc (modelName m) (extendModel m))). wfModel x"
      using Cons.prems(2) set_mapSet_subset[of acc "modelName m" "extendModel m"]
      by (auto simp: objectValues_def wfModel_def modelFields_extendModel keyed_reduceProperties)
    show ?thesis using Cons.IH[OF k w] BModel by simp
  next
    case (BEnum e) then show ?thesis using Cons by simp
  next
    case (BOther x) then show ?thesis using Cons by simp
  qed
qed

lemma keyed_reduceModels: "keyed modelName (reduceModels bs)"
  unfolding reduceModels_def using wf_reduceModels_aux[of "[]" bs] by (simp add: keyed_Nil objectValues_def)

lemma wfModel_reduceModels: "m \<in> set (objectValues (reduceModels bs)) \<Longrightarrow> wfModel m"
  unfolding reduceModels_def using wf_reduceModels_aux[of "[]" bs] by (auto simp add: keyed_Nil objectValues_def)

lemma index_model:
  assumes "map_of (reduceModels bs) a = Some A"
  shows "modelName A = a" and "A \<in> set (objectValues (reduceModels bs))"
    and "keyed fieldName (modelFields A)"
  using keyed_lookup[OF keyed_reduceModels assms] wfModel_reduceModels[of A bs]
  by (simp_all add: wfModel_def)

lemma index_field:
  assumes "map_of (reduceModels bs) a = Some A" and "map_of (modelFields A) n = Some F"
  shows "fieldName F = n" and "F \<in> set (objectValues (modelFields A))"
    and "distinct (map fieldName (objectValues (modelFields A)))"
proof -
  have k: "keyed fieldName (modelFields A)" by (rule index_model(3)[OF assms(1)])
  from keyed_lookup[OF k assms(2)] show "fieldName F = n" "F \<in> set (objectValues (modelFields A))"
    by simp_all
  from k show "distinct (map fieldName (objectValues (modelFields A)))"
    by (simp add: keyed_values) (simp add: keyed_def)
qed

lemma index_models_distinct: "distinct (map modelName (objectValues (reduceModels bs)))"
  using keyed_reduceModels[of bs] by (simp add: keyed_values) (simp add: keyed_def)

lemma mapHas_translateEnums:
  "mapHas (translateEnums bs) t \<longleftrightarrow> t \<in> enumName ` set (enumBlocks bs)"
  unfolding mapHas_iff translateEnums_def keys_foldl_mapSet by simp

section \<open>The translation of one field\<close>

text \<open>
  A field that translates without an error is a backlink, a stored link or a property, and
  the step changes the type under the field's own name only. Whether the step fails, and
  with which error, does not depend on the type built so far, and depends on the target
  schema through its enums only.
\<close>

lemma recordLinkIds_cases:
  assumes "recordLinkIds F ty = Inr ty1"
  obtains (none) "idFields F = None" "ty1 = ty"
    | (one) k n where "idFields F = Some (VKeyValue k (VArray [n]))"
        "ty1 = ty\<lparr>linkIds := insert n (linkIds ty)\<rparr>"
proof -
  show thesis
  proof (cases "idFields F")
    case None
    with assms have "ty1 = ty" by (simp add: recordLinkIds_def)
    with None show thesis by (rule none)
  next
    case (Some kv)
    with assms obtain k args where kv: "kv = VKeyValue k (VArray args)" and len: "length args = 1"
      by (auto simp: recordLinkIds_def split: pvalue.splits if_splits)
    from len obtain n where args: "args = [n]" by (cases args) auto
    from assms Some kv args have "ty1 = ty\<lparr>linkIds := insert n (linkIds ty)\<rparr>"
      by (simp add: recordLinkIds_def)
    with Some kv args show thesis by (auto intro: one)
  qed
qed

lemma recordLinkIds_array:
  assumes "idFields F = Some (VKeyValue k (VArray ids))"
  shows "recordLinkIds F ty =
           (if length ids \<noteq> 1 then Inl UnsupportedCompositeKeyError
            else Inr (ty\<lparr>linkIds := insert (ids ! 0) (linkIds ty)\<rparr>))"
  using assms by (simp add: recordLinkIds_def)

lemma idFields_key:
  assumes "idFields F = Some (VKeyValue k v)"
  shows "k = ''fields''"
proof -
  from assms obtain args arg where "find isFieldsArgument args = Some arg"
    and v: "argValue arg = VKeyValue k v"
    by (auto simp: idFields_def split: option.splits)
  then have "isFieldsArgument arg" by (auto simp: find_Some_iff)
  with v show ?thesis by (cases arg) auto
qed

lemma edbPointer_Inr:
  assumes "edbPointer sch l F = Inr p"
  obtains ty where "pointerType sch l F = Inr ty"
    and "p = \<lparr>kind = (if l then Link else Property),
              multi = truthy (array F),
              required = (if truthy (array F) then False else \<not> truthy (optional F)),
              ptype = ty,
              exclusive = (map_of (attrs F) ''unique'' \<noteq> None),
              dflt = getFieldDefault sch F\<rparr>"
  using assms unfolding edbPointer_def by (cases "pointerType sch l F") auto

lemma pointerType_enum:
  "fieldType F = TName t \<Longrightarrow> mapHas (enums sch) t \<Longrightarrow> pointerType sch l F = Inr t"
  by (simp add: pointerType_def)

lemma pointerType_scalar:
  "fieldType F = TName t \<Longrightarrow> \<not> mapHas (enums sch) t \<Longrightarrow>
   pointerType sch False F =
     (case map_of typeMapping t of None \<Rightarrow> Inl UnknownScalarTypeError | Some sc \<Rightarrow> Inr sc)"
  by (simp add: pointerType_def mapPrismaTypeToEdgeDBScalar_def)


lemma translateField_cases:
  assumes "translateField models sch M ty F = Inr ty'"
  obtains (backlink) B G where "isLink models F = Own B" "linkPair B M = [G]"
      "ty' = ty\<lparr>backlinks := mapSet (backlinks ty) (fieldName F)
                 \<lparr>expr = ''.<'' @ fieldName G @ ''[is '' @ modelName B @ ''];'',
                  bmulti = truthy (array F)\<rparr>\<rparr>"
    | (link) B ty1 p where "isLink models F = Own B" "linkPair B M = []"
        "recordLinkIds F ty = Inr ty1" "edbPointer sch True F = Inr p"
        "ty' = ty1\<lparr>links := mapSet (links ty1) (fieldName F) p\<rparr>"
    | (scalar) p where "isLink models F = Absent" "edbPointer sch False F = Inr p"
        "ty' = ty\<lparr>props := mapSet (props ty) (fieldName F) p\<rparr>"
proof (cases "isLink models F")
  case Absent
  with assms obtain p where "edbPointer sch False F = Inr p"
      "ty' = ty\<lparr>props := mapSet (props ty) (fieldName F) p\<rparr>"
    by (auto simp: translateField_def storePointer_def split: sum.splits)
  with Absent show thesis by (rule scalar)
next
  case Inherited
  then have "(case fieldType F of TName t \<Rightarrow> objectGet models t | TFunc _ _ \<Rightarrow> Absent) = Inherited"
    by (simp add: isLink_def)
  with assms Inherited show thesis by (simp add: translateField_def)
next
  case (Own B)
  then have look: "(case fieldType F of TName t \<Rightarrow> objectGet models t | TFunc _ _ \<Rightarrow> Absent) = Own B"
    by (simp add: isLink_def)
  show thesis
  proof (cases "linkPair B M")
    case Nil
    with assms Own look obtain ty1 p where "recordLinkIds F ty = Inr ty1"
        "edbPointer sch True F = Inr p" "ty' = ty1\<lparr>links := mapSet (links ty1) (fieldName F) p\<rparr>"
      by (auto simp: translateField_def storePointer_def split: sum.splits)
    with Own Nil show thesis by (auto intro: link)
  next
    case (Cons G rest)
    with assms Own look have rest: "rest = []"
      by (auto simp: translateField_def split: if_splits)
    with assms Own look Cons have
      "ty' = ty\<lparr>backlinks := mapSet (backlinks ty) (fieldName F)
                 \<lparr>expr = ''.<'' @ fieldName G @ ''[is '' @ modelName B @ ''];'',
                  bmulti = truthy (array F)\<rparr>\<rparr>"
      by (simp add: translateField_def)
    with Own Cons rest show thesis by (auto intro: backlink)
  qed
qed

lemma translateField_other:
  assumes "translateField models sch M ty F = Inr ty'" "n \<noteq> fieldName F"
  shows "map_of (props ty') n = map_of (props ty) n"
    and "map_of (links ty') n = map_of (links ty) n"
    and "map_of (backlinks ty') n = map_of (backlinks ty) n"
  using assms(1)
  by (cases rule: translateField_cases;
      auto simp: map_of_mapSet assms(2) elim!: recordLinkIds_cases)+

lemma translateField_linkIds_mono:
  assumes "translateField models sch M ty F = Inr ty'"
  shows "linkIds ty \<subseteq> linkIds ty'"
  using assms
  by (cases rule: translateField_cases) (auto elim!: recordLinkIds_cases)

lemma translateField_linkIds_origin:
  assumes "translateField models sch M ty F = Inr ty'" and "i \<in> linkIds ty'"
  shows "i \<in> linkIds ty
       \<or> (\<exists>B. isLink models F = Own B \<and> linkPair B M = []
               \<and> idFields F = Some (VKeyValue ''fields'' (VArray [i])))"
  using assms(1)
proof (cases rule: translateField_cases)
  case (backlink B G)
  with assms(2) show ?thesis by simp
next
  case (link B ty1 p)
  from link(3) show ?thesis
  proof (cases rule: recordLinkIds_cases)
    case none
    with link assms(2) show ?thesis by simp
  next
    case (one k n)
    from idFields_key[OF one(1)] have "k = ''fields''" .
    with one link assms(2) show ?thesis by auto
  qed
next
  case (scalar p)
  with assms(2) show ?thesis by simp
qed

lemma translateField_props_keys:
  assumes "translateField models sch M ty F = Inr ty'"
  shows "fst ` set (props ty') =
           fst ` set (props ty) \<union> (if isLink models F = Absent then {fieldName F} else {})"
  using assms
  by (cases rule: translateField_cases) (auto simp: fst_set_mapSet elim!: recordLinkIds_cases)

lemma nonlink_step_error:
  assumes "isLink models F = Absent" and "pointerType sch False F = Inl e"
  shows "translateField models sch M ty F = Inl e"
  using assms by (simp add: translateField_def storePointer_def edbPointer_def)

text \<open>
  A declared type that names no model but an inherited property of objects, such as
  \<^verbatim>\<open>toString\<close>, is taken for a link, and the step ends in the run-time error.
\<close>

lemma inherited_type_name:
  assumes "fieldType F = TName t" and "map_of models t = None"
    and "t \<in> set objectPrototypeKeys"
  shows "translateField models sch M ty F = Inl JsTypeError"
  using assms by (simp add: translateField_def isLink_def objectGet_def)

lemma owning_step_composite:
  assumes "isLink models F = Own B" and "linkPair B M = []"
    and "idFields F = Some (VKeyValue k (VArray ids))" and "length ids \<noteq> 1"
  shows "translateField models sch M ty F = Inl UnsupportedCompositeKeyError"
proof -
  from assms(1) have look:
    "(case fieldType F of TName t \<Rightarrow> objectGet models t | TFunc _ _ \<Rightarrow> Absent) = Own B"
    by (simp add: isLink_def objectGet_def objectPrototypeKeys_def)
  with assms show ?thesis
    by (simp add: translateField_def recordLinkIds_array[OF assms(3)])
qed

lemma translateField_not_missing:
  "translateField models sch M ty F \<noteq> Inl MissingRelationTargetError"
proof (cases "isLink models F")
  case Absent
  then show ?thesis
    by (auto simp: translateField_def storePointer_def edbPointer_def pointerType_def
        mapPrismaTypeToEdgeDBScalar_def
        split: sum.splits fieldType.splits option.splits if_splits)
next
  case Inherited
  then have "(case fieldType F of TName t \<Rightarrow> objectGet models t | TFunc _ _ \<Rightarrow> Absent) = Inherited"
    by (simp add: isLink_def)
  with Inherited show ?thesis by (simp add: translateField_def)
next
  case (Own B)
  then have look: "(case fieldType F of TName t \<Rightarrow> objectGet models t | TFunc _ _ \<Rightarrow> Absent) = Own B"
    by (simp add: isLink_def)
  have r: "recordLinkIds F ty \<noteq> Inl MissingRelationTargetError"
    by (auto simp: recordLinkIds_def split: option.splits pvalue.splits)
  have sp: "storePointer sch True ty1 F \<noteq> Inl MissingRelationTargetError" for ty1
    by (auto simp: storePointer_def edbPointer_def pointerType_def mapPrismaTypeToEdgeDBScalar_def
        split: sum.splits fieldType.splits option.splits if_splits)
  show ?thesis
  proof (cases "linkPair B M")
    case Nil
    with Own look r sp show ?thesis
      by (cases "recordLinkIds F ty") (simp_all add: translateField_def)
  next
    case (Cons G rest)
    with Own look show ?thesis by (simp add: translateField_def)
  qed
qed

lemma getFieldDefault_enums_cong:
  assumes h: "enums sch' = enums sch"
  shows "getFieldDefault sch' F = getFieldDefault sch F"
  unfolding getFieldDefault_def h by (rule refl)

lemma edbPointer_enums_cong:
  assumes h: "enums sch' = enums sch"
  shows "edbPointer sch' l F = edbPointer sch l F"
  unfolding edbPointer_def pointerType_def h getFieldDefault_enums_cong[OF h] by (rule refl)

lemma storePointer_enums_cong:
  assumes h: "enums sch' = enums sch"
  shows "storePointer sch' l ty F = storePointer sch l ty F"
  unfolding storePointer_def edbPointer_enums_cong[OF h] by (rule refl)

lemma translateField_enums_cong:
  assumes h: "enums sch' = enums sch"
  shows "translateField models sch' M ty F = translateField models sch M ty F"
  unfolding translateField_def storePointer_enums_cong[OF h] by (rule refl)

lemma recordLinkIds_Inl_any:
  "recordLinkIds F ty = Inl e \<Longrightarrow> recordLinkIds F ty' = Inl e"
  by (auto simp: recordLinkIds_def split: option.splits pvalue.splits if_splits)

lemma recordLinkIds_Inr_any:
  "recordLinkIds F ty = Inr ty1 \<Longrightarrow> \<exists>ty2. recordLinkIds F ty' = Inr ty2"
  by (auto simp: recordLinkIds_def split: option.splits pvalue.splits if_splits)

lemma storePointer_Inl_any:
  "storePointer sch l ty F = Inl e \<Longrightarrow> storePointer sch l ty' F = Inl e"
  by (auto simp: storePointer_def split: sum.splits)

lemma translateField_Inl_any:
  assumes "translateField models sch M ty F = Inl e"
  shows "translateField models sch M ty' F = Inl e"
proof (cases "isLink models F")
  case Absent
  with assms show ?thesis
    by (simp add: translateField_def storePointer_Inl_any[of sch False ty F e ty'])
next
  case Inherited
  then have "(case fieldType F of TName t \<Rightarrow> objectGet models t | TFunc _ _ \<Rightarrow> Absent) = Inherited"
    by (simp add: isLink_def)
  with assms Inherited show ?thesis by (simp add: translateField_def)
next
  case (Own B)
  then have look: "(case fieldType F of TName t \<Rightarrow> objectGet models t | TFunc _ _ \<Rightarrow> Absent) = Own B"
    by (simp add: isLink_def)
  show ?thesis
  proof (cases "linkPair B M")
    case (Cons G rest)
    with assms Own look show ?thesis
      by (simp add: translateField_def split: if_splits)
  next
    case Nil
    show ?thesis
    proof (cases "recordLinkIds F ty")
      case (Inl e')
      with assms Own look Nil have "e' = e" by (simp add: translateField_def)
      with Inl recordLinkIds_Inl_any[of F ty e ty'] Own look Nil show ?thesis
        by (simp add: translateField_def)
    next
      case (Inr ty1)
      with assms Own look Nil have sp: "storePointer sch True ty1 F = Inl e"
        by (simp add: translateField_def)
      from recordLinkIds_Inr_any[OF Inr, of ty'] obtain ty2 where
        r2: "recordLinkIds F ty' = Inr ty2" by blast
      from storePointer_Inl_any[OF sp, of ty2] r2 Own look Nil show ?thesis
        by (simp add: translateField_def)
    qed
  qed
qed

section \<open>The loops over fields and models\<close>

lemma translateFields_other:
  assumes "translateFields models sch M ty fs = Inr ty'" "n \<notin> fieldName ` set fs"
  shows "map_of (props ty') n = map_of (props ty) n
       \<and> map_of (links ty') n = map_of (links ty) n
       \<and> map_of (backlinks ty') n = map_of (backlinks ty) n"
  using assms
proof (induction fs arbitrary: ty)
  case Nil then show ?case by simp
next
  case (Cons f fs)
  from Cons.prems(1) obtain ty1 where s: "translateField models sch M ty f = Inr ty1"
    and r: "translateFields models sch M ty1 fs = Inr ty'"
    by (auto split: sum.splits)
  from Cons.prems(2) have "n \<noteq> fieldName f" "n \<notin> fieldName ` set fs" by auto
  with Cons.IH[OF r] translateField_other[OF s] show ?case by simp
qed

lemma translateFields_linkIds_mono:
  "translateFields models sch M ty fs = Inr ty' \<Longrightarrow> linkIds ty \<subseteq> linkIds ty'"
proof (induction fs arbitrary: ty)
  case Nil then show ?case by simp
next
  case (Cons f fs)
  from Cons.prems obtain ty1 where s: "translateField models sch M ty f = Inr ty1"
    and r: "translateFields models sch M ty1 fs = Inr ty'"
    by (auto split: sum.splits)
  from Cons.IH[OF r] translateField_linkIds_mono[OF s] show ?case by blast
qed

lemma translateFields_field:
  assumes "translateFields models sch M ty fs = Inr ty'"
    and "distinct (map fieldName fs)" and "F \<in> set fs"
  obtains ty0 ty1 where "translateField models sch M ty0 F = Inr ty1"
    and "map_of (props ty0) (fieldName F) = map_of (props ty) (fieldName F)"
    and "map_of (links ty0) (fieldName F) = map_of (links ty) (fieldName F)"
    and "map_of (backlinks ty0) (fieldName F) = map_of (backlinks ty) (fieldName F)"
    and "map_of (props ty') (fieldName F) = map_of (props ty1) (fieldName F)"
    and "map_of (links ty') (fieldName F) = map_of (links ty1) (fieldName F)"
    and "map_of (backlinks ty') (fieldName F) = map_of (backlinks ty1) (fieldName F)"
    and "linkIds ty1 \<subseteq> linkIds ty'"
  using assms
proof (induction fs arbitrary: ty thesis)
  case Nil then show ?case by simp
next
  case (Cons f fs)
  from Cons.prems(2) obtain ty1 where s: "translateField models sch M ty f = Inr ty1"
    and r: "translateFields models sch M ty1 fs = Inr ty'"
    by (auto split: sum.splits)
  show ?case
  proof (cases "F = f")
    case True
    from Cons.prems(3) have "fieldName f \<notin> fieldName ` set fs" by auto
    from translateFields_other[OF r this] translateFields_linkIds_mono[OF r] s True
    show ?thesis by (intro Cons.prems(1)[of ty ty1]) auto
  next
    case False
    with Cons.prems(4) have in_fs: "F \<in> set fs" by simp
    from Cons.prems(3) have d: "distinct (map fieldName fs)" by simp
    from Cons.prems(3) in_fs have ne: "fieldName F \<noteq> fieldName f" by (auto simp: image_iff)
    show ?thesis
    proof (rule Cons.IH[OF _ r d in_fs])
      fix ty0 ty2
      assume "translateField models sch M ty0 F = Inr ty2"
        "map_of (props ty0) (fieldName F) = map_of (props ty1) (fieldName F)"
        "map_of (links ty0) (fieldName F) = map_of (links ty1) (fieldName F)"
        "map_of (backlinks ty0) (fieldName F) = map_of (backlinks ty1) (fieldName F)"
        "map_of (props ty') (fieldName F) = map_of (props ty2) (fieldName F)"
        "map_of (links ty') (fieldName F) = map_of (links ty2) (fieldName F)"
        "map_of (backlinks ty') (fieldName F) = map_of (backlinks ty2) (fieldName F)"
        "linkIds ty2 \<subseteq> linkIds ty'"
      with translateField_other[OF s ne] show thesis
        by (intro Cons.prems(1)[of ty0 ty2]) auto
    qed
  qed
qed

lemma translateFields_enums_cong:
  "enums sch' = enums sch \<Longrightarrow>
   translateFields models sch' M ty fs = translateFields models sch M ty fs"
  by (induction fs arbitrary: ty) (simp_all add: translateField_enums_cong[of sch' sch] split: sum.splits)

lemma translateFields_append:
  "translateFields models sch M ty (xs @ ys) =
     (case translateFields models sch M ty xs of
        Inl e \<Rightarrow> Inl e
      | Inr ty1 \<Rightarrow> translateFields models sch M ty1 ys)"
  by (induction xs arbitrary: ty) (auto split: sum.splits)

lemma translateFields_Inl_any:
  "translateFields models sch M ty fs = Inl e \<Longrightarrow>
   \<exists>e'. translateFields models sch M ty' fs = Inl e'"
proof (induction fs arbitrary: ty ty')
  case Nil then show ?case by simp
next
  case (Cons f fs)
  show ?case
  proof (cases "translateField models sch M ty' f")
    case (Inl e') then show ?thesis by simp
  next
    case (Inr ty1')
    show ?thesis
    proof (cases "translateField models sch M ty f")
      case (Inl e0)
      from translateField_Inl_any[OF this, of ty'] Inr show ?thesis by simp
    next
      case (Inr ty1)
      with Cons.prems have "translateFields models sch M ty1 fs = Inl e" by simp
      from Cons.IH[OF this, of ty1'] \<open>translateField models sch M ty' f = Inr ty1'\<close>
      show ?thesis by simp
    qed
  qed
qed

lemma translateFields_Inl_member:
  assumes "F \<in> set fs" and "translateField models sch M ty0 F = Inl e"
  shows "\<exists>e'. translateFields models sch M ty fs = Inl e'"
  using assms(1)
proof (induction fs arbitrary: ty)
  case Nil then show ?case by simp
next
  case (Cons f fs)
  show ?case
  proof (cases "translateField models sch M ty f")
    case (Inl e') then show ?thesis by simp
  next
    case (Inr ty1)
    have "F \<noteq> f"
    proof
      assume "F = f"
      with translateField_Inl_any[OF assms(2), of ty] Inr show False by simp
    qed
    with Cons.prems have "F \<in> set fs" by simp
    from Cons.IH[OF this, of ty1] Inr show ?thesis by simp
  qed
qed

lemma translateFields_linkIds_origin:
  assumes "translateFields models sch M ty fs = Inr ty'" and "i \<in> linkIds ty'"
  shows "i \<in> linkIds ty
       \<or> (\<exists>F\<in>set fs. \<exists>B. isLink models F = Own B \<and> linkPair B M = []
               \<and> idFields F = Some (VKeyValue ''fields'' (VArray [i])))"
  using assms
proof (induction fs arbitrary: ty)
  case Nil then show ?case by simp
next
  case (Cons f fs)
  from Cons.prems(1) obtain ty1 where s: "translateField models sch M ty f = Inr ty1"
    and r: "translateFields models sch M ty1 fs = Inr ty'"
    by (auto split: sum.splits)
  from Cons.IH[OF r Cons.prems(2)] translateField_linkIds_origin[OF s]
  show ?case by auto
qed

lemma translateFields_props_keys:
  assumes "translateFields models sch M ty fs = Inr ty'"
  shows "fst ` set (props ty') =
           fst ` set (props ty) \<union> {fieldName F |F. F \<in> set fs \<and> isLink models F = Absent}"
  using assms
proof (induction fs arbitrary: ty)
  case Nil then show ?case by simp
next
  case (Cons f fs)
  from Cons.prems(1) obtain ty1 where s: "translateField models sch M ty f = Inr ty1"
    and r: "translateFields models sch M ty1 fs = Inr ty'"
    by (auto split: sum.splits)
  from Cons.IH[OF r] translateField_props_keys[OF s]
  show ?case by (auto split: if_splits)
qed

lemma translateFields_not_missing:
  "translateFields models sch M ty fs \<noteq> Inl MissingRelationTargetError"
  by (induction fs arbitrary: ty) (auto simp: translateField_not_missing split: sum.splits)

lemma translateModels_enums:
  "translateModels models sch ms = Inr out \<Longrightarrow> enums out = enums sch"
  by (induction ms arbitrary: sch) (auto split: sum.splits)

lemma translateModels_types_other:
  "translateModels models sch ms = Inr out \<Longrightarrow> k \<notin> modelName ` set ms \<Longrightarrow>
   map_of (types out) k = map_of (types sch) k"
  by (induction ms arbitrary: sch) (auto simp: map_of_mapSet split: sum.splits)

lemma translateModels_model:
  assumes "translateModels models sch ms = Inr out"
    and "distinct (map modelName ms)" and "M \<in> set ms"
  shows "\<exists>ty. map_of (types out) (modelName M) = Some ty
             \<and> translateFields models sch M emptyObjectType (objectValues (modelFields M)) = Inr ty"
  using assms
proof (induction ms arbitrary: sch)
  case Nil then show ?case by simp
next
  case (Cons m ms)
  from Cons.prems(1) obtain ty where
    f: "translateFields models sch m emptyObjectType (objectValues (modelFields m)) = Inr ty"
    and r: "translateModels models (sch\<lparr>types := mapSet (types sch) (modelName m) ty\<rparr>) ms = Inr out"
    by (auto split: sum.splits)
  show ?case
  proof (cases "M = m")
    case True
    from Cons.prems(2) have "modelName m \<notin> modelName ` set ms" by auto
    from translateModels_types_other[OF r this] f True show ?thesis
      by (simp add: map_of_mapSet)
  next
    case False
    with Cons.prems(3) have "M \<in> set ms" by simp
    moreover from Cons.prems(2) have "distinct (map modelName ms)" by simp
    ultimately obtain ty' where "map_of (types out) (modelName M) = Some ty'"
      "translateFields models (sch\<lparr>types := mapSet (types sch) (modelName m) ty\<rparr>) M emptyObjectType
         (objectValues (modelFields M)) = Inr ty'"
      using Cons.IH[OF r] by blast
    then show ?thesis
      using translateFields_enums_cong[of "sch\<lparr>types := mapSet (types sch) (modelName m) ty\<rparr>" sch]
      by simp
  qed
qed

lemma translateModels_append:
  "translateModels models sch (xs @ ys) =
     (case translateModels models sch xs of
        Inl e \<Rightarrow> Inl e
      | Inr sch1 \<Rightarrow> translateModels models sch1 ys)"
  by (induction xs arbitrary: sch) (auto split: sum.splits)

lemma translateModels_Inl_member:
  assumes "M \<in> set ms"
    and "translateFields models sch0 M emptyObjectType (objectValues (modelFields M)) = Inl e"
    and "enums sch = enums sch0"
  shows "\<exists>e'. translateModels models sch ms = Inl e'"
  using assms(1,3)
proof (induction ms arbitrary: sch)
  case Nil then show ?case by simp
next
  case (Cons m ms)
  show ?case
  proof (cases "translateFields models sch m emptyObjectType (objectValues (modelFields m))")
    case (Inl e') then show ?thesis by simp
  next
    case (Inr ty)
    have "M \<noteq> m"
    proof
      assume "M = m"
      with assms(2) Inr translateFields_enums_cong[OF Cons.prems(2), of models m emptyObjectType
          "objectValues (modelFields m)"]
      show False by simp
    qed
    with Cons.prems(1) have "M \<in> set ms" by simp
    from Cons.IH[OF this, of "sch\<lparr>types := mapSet (types sch) (modelName m) ty\<rparr>"] Cons.prems(2) Inr
    show ?thesis by simp
  qed
qed

lemma translateModels_not_missing:
  "translateModels models sch ms \<noteq> Inl MissingRelationTargetError"
  by (induction ms arbitrary: sch) (auto simp: translateFields_not_missing split: sum.splits)

section \<open>The run as a whole\<close>

text \<open>
  What a successful run holds for a declared field, and what a failing field means for
  the run.
\<close>

lemma success_type:
  assumes "translateSchema s = Inr out" and "map_of (reduceModels (list s)) a = Some A"
  shows "\<exists>ty. map_of (types out) a = Some ty
           \<and> translateFields (reduceModels (list s)) \<lparr>enums = translateEnums (list s), types = []\<rparr>
                A emptyObjectType (objectValues (modelFields A)) = Inr ty"
  using translateModels_model[OF assms(1)[unfolded translateSchema_def] index_models_distinct
          index_model(2)[OF assms(2)]] index_model(1)[OF assms(2)]
  by simp

lemma success_enums:
  "translateSchema s = Inr out \<Longrightarrow> enums out = translateEnums (list s)"
  unfolding translateSchema_def by (drule translateModels_enums) simp

lemma success_field:
  assumes "translateSchema s = Inr out" and "map_of (reduceModels (list s)) a = Some A"
    and "map_of (modelFields A) n = Some F"
  obtains ty ty0 ty1 where "map_of (types out) a = Some ty"
    and "translateField (reduceModels (list s)) \<lparr>enums = translateEnums (list s), types = []\<rparr>
           A ty0 F = Inr ty1"
    and "map_of (props ty0) n = None" and "map_of (links ty0) n = None"
    and "map_of (backlinks ty0) n = None"
    and "map_of (props ty) n = map_of (props ty1) n"
    and "map_of (links ty) n = map_of (links ty1) n"
    and "map_of (backlinks ty) n = map_of (backlinks ty1) n"
    and "linkIds ty1 \<subseteq> linkIds ty"
proof -
  from success_type[OF assms(1,2)] obtain ty where t: "map_of (types out) a = Some ty"
    and f: "translateFields (reduceModels (list s)) \<lparr>enums = translateEnums (list s), types = []\<rparr>
                A emptyObjectType (objectValues (modelFields A)) = Inr ty" by blast
  note i = index_field[OF assms(2,3)]
  from translateFields_field[OF f i(3) i(2)] obtain ty0 ty1 where
    "translateField (reduceModels (list s)) \<lparr>enums = translateEnums (list s), types = []\<rparr>
           A ty0 F = Inr ty1"
    "map_of (props ty0) (fieldName F) = map_of (props emptyObjectType) (fieldName F)"
    "map_of (links ty0) (fieldName F) = map_of (links emptyObjectType) (fieldName F)"
    "map_of (backlinks ty0) (fieldName F) = map_of (backlinks emptyObjectType) (fieldName F)"
    "map_of (props ty) (fieldName F) = map_of (props ty1) (fieldName F)"
    "map_of (links ty) (fieldName F) = map_of (links ty1) (fieldName F)"
    "map_of (backlinks ty) (fieldName F) = map_of (backlinks ty1) (fieldName F)"
    "linkIds ty1 \<subseteq> linkIds ty" by blast
  with t i(1) show thesis by (intro that[of ty ty0 ty1]) (simp_all add: emptyObjectType_def)
qed

lemma field_outcome:
  assumes "translateSchema s = Inr out" and "map_of (reduceModels (list s)) a = Some A"
    and "map_of (modelFields A) n = Some F"
  obtains (backlink) ty B G where "map_of (types out) a = Some ty"
      "isLink (reduceModels (list s)) F = Own B" "linkPair B A = [G]"
      "map_of (backlinks ty) n =
         Some \<lparr>expr = ''.<'' @ fieldName G @ ''[is '' @ modelName B @ ''];'',
               bmulti = truthy (array F)\<rparr>"
      "map_of (props ty) n = None" "map_of (links ty) n = None"
    | (link) ty B p ty0 ty1 where "map_of (types out) a = Some ty"
      "isLink (reduceModels (list s)) F = Own B" "linkPair B A = []"
      "edbPointer \<lparr>enums = translateEnums (list s), types = []\<rparr> True F = Inr p"
      "map_of (links ty) n = Some p"
      "map_of (props ty) n = None" "map_of (backlinks ty) n = None"
      "recordLinkIds F ty0 = Inr ty1" "linkIds ty1 \<subseteq> linkIds ty"
    | (scalar) ty p where "map_of (types out) a = Some ty"
      "isLink (reduceModels (list s)) F = Absent"
      "edbPointer \<lparr>enums = translateEnums (list s), types = []\<rparr> False F = Inr p"
      "map_of (props ty) n = Some p"
      "map_of (links ty) n = None" "map_of (backlinks ty) n = None"
proof -
  from success_field[OF assms] obtain ty ty0 ty1 where t: "map_of (types out) a = Some ty"
    and step: "translateField (reduceModels (list s)) \<lparr>enums = translateEnums (list s), types = []\<rparr>
           A ty0 F = Inr ty1"
    and z: "map_of (props ty0) n = None" "map_of (links ty0) n = None"
      "map_of (backlinks ty0) n = None"
    and e: "map_of (props ty) n = map_of (props ty1) n"
      "map_of (links ty) n = map_of (links ty1) n"
      "map_of (backlinks ty) n = map_of (backlinks ty1) n"
    and l: "linkIds ty1 \<subseteq> linkIds ty" by blast
  note nm = index_field(1)[OF assms(2,3)]
  from step show thesis
  proof (cases rule: translateField_cases)
    case (backlink B G)
    with t z e nm show ?thesis
      by (intro that(1)[of ty B G]) (simp_all add: map_of_mapSet)
  next
    case (link B ty2 p)
    from link(3) have same: "props ty2 = props ty0" "links ty2 = links ty0"
      "backlinks ty2 = backlinks ty0"
      by (auto elim!: recordLinkIds_cases)
    have "linkIds ty2 \<subseteq> linkIds ty" using l link(5) by simp
    with link t z e nm same show ?thesis
      by (intro that(2)[of ty B p ty0 ty2]) (simp_all add: map_of_mapSet)
  next
    case (scalar p)
    with t z e nm show ?thesis
      by (intro that(3)[of ty p]) (simp_all add: map_of_mapSet)
  qed
qed

lemma failure_no_output:
  assumes "map_of (reduceModels (list s)) a = Some A" and "map_of (modelFields A) n = Some F"
    and "translateField (reduceModels (list s)) sch A ty F = Inl e"
    and "enums sch = translateEnums (list s)"
  shows "\<exists>e'. translateSchema s = Inl e'"
proof -
  let ?sch0 = "\<lparr>enums = translateEnums (list s), types = []\<rparr>"
  have c: "enums ?sch0 = enums sch" using assms(4) by simp
  from assms(3) have "translateField (reduceModels (list s)) ?sch0 A ty F = Inl e"
    by (simp add: translateField_enums_cong[OF c])
  from translateFields_Inl_member[OF index_field(2)[OF assms(1,2)] this]
  obtain e1 where "translateFields (reduceModels (list s)) ?sch0 A emptyObjectType
      (objectValues (modelFields A)) = Inl e1" by blast
  from translateModels_Inl_member[OF index_model(2)[OF assms(1)] this refl]
  show ?thesis by (simp add: translateSchema_def)
qed

lemma reaches_failure:
  assumes "reaches s a n"
    and "map_of (reduceModels (list s)) a = Some A" and "map_of (modelFields A) n = Some F"
    and "translateField (reduceModels (list s)) sch A ty F = Inl e"
    and "enums sch = translateEnums (list s)"
  shows "translateSchema s = Inl e"
proof -
  let ?models = "reduceModels (list s)"
  let ?sch0 = "\<lparr>enums = translateEnums (list s), types = []\<rparr>"
  from assms(1,2) obtain sch1 ty0 where
    m: "translateModels ?models ?sch0 (modelsBefore ?models a) = Inr sch1"
    and f: "translateFields ?models sch1 A emptyObjectType (fieldsBefore A n) = Inr ty0"
    by (auto simp: reaches_def split: sum.splits)
  have e1: "enums sch1 = enums sch" using translateModels_enums[OF m] assms(5) by simp
  from translateField_Inl_any[OF assms(4), of ty0]
  have step: "translateField ?models sch1 A ty0 F = Inl e"
    by (simp add: translateField_enums_cong[OF e1])
  note i = index_field[OF assms(2,3)]
  from split_at_key[OF i(3) i(2)] i(1) obtain rest where
    fs: "objectValues (modelFields A) = fieldsBefore A n @ F # rest"
    by (auto simp: fieldsBefore_def)
  have "translateFields ?models sch1 A emptyObjectType (objectValues (modelFields A)) = Inl e"
    by (simp add: fs translateFields_append f step)
  moreover
  from split_at_key[OF index_models_distinct index_model(2)[OF assms(2)]] index_model(1)[OF assms(2)]
  obtain rest' where "objectValues ?models = modelsBefore ?models a @ A # rest'"
    by (auto simp: modelsBefore_def)
  ultimately show ?thesis
    by (simp add: translateSchema_def translateModels_append m)
qed

text \<open>
  A field whose declared type is a declared enum, when the name is neither a declared
  model nor a property every object inherits: the step stores a property of that type.
\<close>

lemma enum_typed_step:
  assumes "map_of (reduceModels (list s)) a = Some A"
    and "map_of (modelFields A) n = Some F"
    and "fieldType F = TName t"
    and "t \<in> enumName ` set (enumBlocks (list s))"
    and "map_of (reduceModels (list s)) t = None"
    and "t \<notin> set objectPrototypeKeys"
  shows "translateField (reduceModels (list s))
              \<lparr>enums = translateEnums (list s), types = []\<rparr> A edbType F
            = Inr (edbType\<lparr>props := mapSet (props edbType) n
                 \<lparr>kind = Property, multi = truthy (array F),
                  required = (if truthy (array F) then False else \<not> truthy (optional F)),
                  ptype = t, exclusive = (map_of (attrs F) ''unique'' \<noteq> None),
                  dflt = getFieldDefault \<lparr>enums = translateEnums (list s), types = []\<rparr> F\<rparr>\<rparr>)"
proof -
  let ?sch0 = "\<lparr>enums = translateEnums (list s), types = []\<rparr>"
  have nl: "isLink (reduceModels (list s)) F = Absent"
    using assms(3,5,6) by (simp add: isLink_def objectGet_def)
  have en: "mapHas (enums ?sch0) t" using assms(4) by (simp add: mapHas_translateEnums)
  note pt = pointerType_enum[OF assms(3) en, of False]
  note nm = index_field(1)[OF assms(1,2)]
  show ?thesis
    using nl pt nm by (simp add: translateField_def storePointer_def edbPointer_def)
qed

section \<open>Rendering and quoting\<close>

text \<open>
  The renderer filters the stored pointers by \<open>linkIds\<close>, so a stored pointer whose name is
  in \<open>linkIds\<close> leaves no trace in the text of its type.
\<close>

lemma renderedPointers_withoutPointer:
  assumes "i \<in> linkIds objType"
  shows "renderedPointers (withoutPointer i objType) = renderedPointers objType"
proof -
  have "filter (\<lambda>(name, _). name \<notin> linkIds objType) (filter (\<lambda>(name, _). name \<noteq> i) xs)
      = filter (\<lambda>(name, _). name \<notin> linkIds objType) xs" for xs :: "(string \<times> pointerAst) list"
    using assms by (induction xs) auto
  then show ?thesis
    by (simp add: renderedPointers_def withoutPointer_def)
qed

lemma renderType_withoutPointer:
  assumes "i \<in> linkIds objType"
  shows "renderType (a, withoutPointer i objType) = renderType (a, objType)"
  using renderedPointers_withoutPointer[OF assms]
  by (simp add: renderType_def) (simp add: withoutPointer_def)


lemma quoteJSONChar_plain: "plainChar c \<Longrightarrow> quoteJSONChar c = [c]"
  by (auto simp: plainChar_def quoteJSONChar_def)

lemma quote_plain: "\<forall>c\<in>set w. plainChar c \<Longrightarrow> concat (map quoteJSONChar w) = w"
  by (induction w) (simp_all add: quoteJSONChar_plain)

lemma JSON_stringify_plain:
  "\<forall>c\<in>set w. plainChar c \<Longrightarrow> JSON_stringify w = [CHR 0x22] @ w @ [CHR 0x22]"
  by (simp add: JSON_stringify_def quote_plain)

lemma JSON_stringify_literal:
  assumes "\<forall>c\<in>set w. plainChar c"
  shows "JSON_stringify ([CHR 0x22] @ w @ [CHR 0x22])
           = [CHR 0x22, CHR 0x5C, CHR 0x22] @ w @ [CHR 0x5C, CHR 0x22, CHR 0x22]"
  using quote_plain[OF assms] by (simp add: JSON_stringify_def quoteJSONChar_def)

section \<open>The example schemas, evaluated\<close>

lemmas eval_index =
  reduceModels_def reduceProperties_def reduceAttributes_def extendModel_def extendField_def
  model.defs field.defs extendedModel.defs extendedField.defs objectValues_def

lemmas eval_translate =
  translateSchema_def translateEnums_def translateField_def isLink_def linkPair_def
  recordLinkIds_def idFields_def storePointer_def edbPointer_def pointerType_def
  mapPrismaTypeToEdgeDBScalar_def typeMapping_def getFieldDefault_def defaultArgument_def
  mapHas_def emptyObjectType_def objectGet_def objectPrototypeKeys_def

lemma exE_models:
  "reduceModels (list exE) = [(''A'', extendModel exE_A), (''B'', extendModel exE_B)]"
  by (simp add: exE_def reduceModels_def exE_A_def exE_B_def)

lemma exA_translate: "translateSchema exA = Inr exA_out"
  by (simp add: exA_def exA_User_def exA_Role_def exA_id_def exA_email_def exA_role_def
      exA_out_def eval_index eval_translate)

lemma exA_index: "reduceModels (list exA) = [(''User'', extendModel exA_User)]"
  by (simp add: exA_def exA_User_def reduceModels_def)


lemma exA_id_no_default: "defaultArgument (extendField exA_id) = None"
  by (simp add: defaultArgument_def extendField_def field.defs extendedField.defs exA_id_def)

lemma exA_out_enums: "mapHas (enums exA_out) t \<longleftrightarrow> t = ''Role''"
  by (auto simp: mapHas_def exA_out_def)

lemmas exD_defs =
  exD_def exD_User_def exD_Post_def exD_id_def exD_posts_def exD_author_def exD_authorId_def
  exD_tags_def exD_note_def

lemma exD_translate: "translateSchema exD = Inr exD_out"
  by (simp add: exD_defs exD_out_def exD_UserType_def exD_PostType_def eval_index eval_translate)

lemma exD_index:
  "reduceModels (list exD) = [(''User'', extendModel exD_User), (''Post'', extendModel exD_Post)]"
  by (simp add: exD_def exD_User_def exD_Post_def reduceModels_def)

lemma exD_User_fields:
  "modelFields (extendModel exD_User) =
     [(''id'', extendField exD_id), (''posts'', extendField exD_posts)]"
  by (simp add: modelFields_extendModel reduceProperties_def exD_User_def exD_id_def exD_posts_def)

lemma exD_Post_fields:
  "modelFields (extendModel exD_Post) =
     [(''id'', extendField exD_id), (''author'', extendField exD_author),
      (''authorId'', extendField exD_authorId), (''tags'', extendField exD_tags),
      (''note'', extendField exD_note)]"
  by (simp add: modelFields_extendModel reduceProperties_def exD_Post_def exD_id_def
      exD_author_def exD_authorId_def exD_tags_def exD_note_def)

lemma exD_linkPair_posts:
  "linkPair (extendModel exD_Post) (extendModel exD_User) = [extendField exD_author]"
  by (simp add: linkPair_def exD_Post_fields objectValues_def modelName_extendModel exD_User_def
      extendField_def field.defs extendedField.defs reduceAttributes_def exD_id_def exD_author_def
      exD_authorId_def exD_tags_def exD_note_def)

lemma exD_linkPair_author:
  "linkPair (extendModel exD_User) (extendModel exD_Post) = []"
  by (simp add: linkPair_def exD_User_fields objectValues_def modelName_extendModel exD_Post_def
      extendField_def field.defs extendedField.defs reduceAttributes_def exD_id_def exD_posts_def)

lemma exC_index:
  "reduceModels (list exC) = [(''Post'', extendModel exC_Post), (''User'', extendModel exC_User)]"
  by (simp add: exC_def exC_User_def exC_Post_def reduceModels_def)

lemma exH_translate: "translateSchema exH = Inr exH_out"
  by (simp add: exH_def exH_Post_def exH_User_def exH_author_def exH_id_def exH_out_def
      exH_PostType_def exH_UserType_def eval_index eval_translate)

lemma defaultField_simps:
  "defaultArgument (defaultField n t v) = Some (AttributeArgument v)"
  "fieldType (defaultField n t v) = t"
  by (simp_all add: defaultField_def defaultArgument_def extendField_def field.defs
      extendedField.defs reduceAttributes_def)

lemmas exB_defs =
  exB_def exB_A_def exB_B_def exB_C_def exB_b_def exB_c_def exB_g_def

lemma exB_translate: "translateSchema exB = Inr exB_out"
  by (simp add: exB_defs exB_out_def exB_AType_def eval_index eval_translate)

lemma exB_index:
  "reduceModels (list exB) =
     [(''A'', extendModel exB_A), (''B'', extendModel exB_B), (''C'', extendModel exB_C)]"
  by (simp add: exB_def exB_A_def exB_B_def exB_C_def reduceModels_def)

text \<open>
  The two run-time errors of the resolution of a declared type: a name that nothing
  declares but every object inherits, and a call that comes without its parameters.
\<close>

lemma exV_translate: "translateSchema exV = Inl JsTypeError"
  by (simp add: exV_def exV_f_def eval_index eval_translate translateModels.simps
      translateFields.simps)

lemma exN_translate: "translateSchema exN = Inl JsTypeError"
  by (simp add: exN_def exN_u_def eval_index eval_translate translateModels.simps
      translateFields.simps)

section \<open>The claims\<close>

text \<open>
  C1, as stated, fails in the text of the expression: for the posts of a user, found
  through the one field \<open>author\<close> of \<open>Post\<close>, the stored expression is
  \<^verbatim>\<open>.<author[is Post];\<close>, with the terminating semicolon, and not \<^verbatim>\<open>.<author[is Post]\<close>.
\<close>

theorem backlink_classification_counterexample:
  "fieldType (extendField exD_posts) = TName ''Post''
   \<and> map_of (reduceModels (list exD)) ''Post'' = Some (extendModel exD_Post)
   \<and> linkPair (extendModel exD_Post) (extendModel exD_User) = [extendField exD_author]
   \<and> translateSchema exD = Inr exD_out
   \<and> map_of (types exD_out) ''User'' = Some exD_UserType
   \<and> map_option expr (map_of (backlinks exD_UserType) ''posts'') = Some ''.<author[is Post];''
   \<and> map_option expr (map_of (backlinks exD_UserType) ''posts'') \<noteq> Some ''.<author[is Post]''"
  by (simp add: exD_translate exD_index exD_linkPair_posts exD_out_def exD_UserType_def
      extendField_def field.defs exD_posts_def)

text \<open>
  C1, amended. A link field \<open>F\<close> of model \<open>A\<close> has a declared type that names model \<open>B\<close>,
  and exactly one field \<open>G\<close> of \<open>B\<close> carries a relation attribute and has declared type
  \<open>A\<close>. Then in the output of a successful run \<open>F\<close> stands in neither \<open>props\<close> nor \<open>links\<close>
  of \<open>A\<close>, and stands in \<open>backlinks\<close> with the expression \<^verbatim>\<open>.<G[is B];\<close>, which ends with
  the semicolon that terminates the rendered line, and with \<open>multi\<close> equal to the list-ness
  \<open>F\<close> declares.
\<close>

theorem backlink_classification:
  assumes "translateSchema s = Inr out"
    and "map_of (reduceModels (list s)) a = Some A"
    and "map_of (modelFields A) n = Some F"
    and "fieldType F = TName b"
    and "map_of (reduceModels (list s)) b = Some B"
    and "linkPair B A = [G]"
  shows "\<exists>ty. map_of (types out) a = Some ty
           \<and> map_of (backlinks ty) n
               = Some \<lparr>expr = ''.<'' @ fieldName G @ ''[is '' @ b @ ''];'',
                       bmulti = truthy (array F)\<rparr>
           \<and> map_of (props ty) n = None
           \<and> map_of (links ty) n = None
           \<and> n \<notin> fst ` set (renderedPointers ty)"
proof -
  have il: "isLink (reduceModels (list s)) F = Own B"
    using assms(4,5) by (simp add: isLink_def objectGet_def objectPrototypeKeys_def)
  note bn = index_model(1)[OF assms(5)]
  from assms(1,2,3) show ?thesis
  proof (cases rule: field_outcome)
    case (backlink ty B' G')
    with il assms(6) have "B' = B" "G' = G" by simp_all
    moreover have "n \<notin> fst ` set (renderedPointers ty)"
      using backlink(5,6) by (auto simp: renderedPointers_def map_of_eq_None_iff)
    ultimately show ?thesis using backlink bn by simp
  next
    case (link ty B' p ty0 ty1)
    with il assms(6) show ?thesis by simp
  next
    case (scalar ty p)
    with il show ?thesis by simp
  qed
qed

theorem backlink_classification_witness:
  "translateSchema exD = Inr exD_out
   \<and> map_of (reduceModels (list exD)) ''User'' = Some (extendModel exD_User)
   \<and> map_of (modelFields (extendModel exD_User)) ''posts'' = Some (extendField exD_posts)
   \<and> fieldType (extendField exD_posts) = TName ''Post''
   \<and> map_of (reduceModels (list exD)) ''Post'' = Some (extendModel exD_Post)
   \<and> linkPair (extendModel exD_Post) (extendModel exD_User) = [extendField exD_author]
   \<and> (\<exists>ty. map_of (types exD_out) ''User'' = Some ty
           \<and> map_of (backlinks ty) ''posts''
               = Some \<lparr>expr = ''.<author[is Post];'', bmulti = True\<rparr>
           \<and> map_of (props ty) ''posts'' = None
           \<and> map_of (links ty) ''posts'' = None
           \<and> ''posts'' \<notin> fst ` set (renderedPointers ty))"
proof -
  have h2: "map_of (reduceModels (list exD)) ''User'' = Some (extendModel exD_User)"
    by (simp add: exD_index)
  have h3: "map_of (modelFields (extendModel exD_User)) ''posts'' = Some (extendField exD_posts)"
    by (simp add: exD_User_fields)
  have h4: "fieldType (extendField exD_posts) = TName ''Post''"
    by (simp add: extendField_def field.defs exD_posts_def)
  have h5: "map_of (reduceModels (list exD)) ''Post'' = Some (extendModel exD_Post)"
    by (simp add: exD_index)
  have v: "fieldName (extendField exD_author) = ''author''"
    "truthy (array (extendField exD_posts)) = True"
    by (simp_all add: extendField_def field.defs exD_author_def exD_posts_def)
  from backlink_classification[OF exD_translate h2 h3 h4 h5 exD_linkPair_posts] v
  have "\<exists>ty. map_of (types exD_out) ''User'' = Some ty
           \<and> map_of (backlinks ty) ''posts''
               = Some \<lparr>expr = ''.<author[is Post];'', bmulti = True\<rparr>
           \<and> map_of (props ty) ''posts'' = None
           \<and> map_of (links ty) ''posts'' = None
           \<and> ''posts'' \<notin> fst ` set (renderedPointers ty)" by simp
  with exD_translate h2 h3 h4 h5 exD_linkPair_posts show ?thesis by (intro conjI)
qed

text \<open>
  C2, as stated, fails: a field whose declared type is a name that no model, enum or
  scalar has makes the run fail with \<open>UnknownScalarTypeError\<close>, not with
  \<open>MissingRelationTargetError\<close>.
\<close>

theorem missing_relation_target_counterexample:
  "fieldType exF_x = TName ''Foo''
   \<and> objectGet (reduceModels (list exF)) ''Foo'' = Absent
   \<and> translateSchema exF = Inl UnknownScalarTypeError
   \<and> translateSchema exF \<noteq> Inl MissingRelationTargetError"
  by (simp add: exF_def exF_A_def exF_x_def reduceModels_def translateSchema_def objectValues_def
      extendModel_def model.defs extendedModel.defs reduceProperties_def extendField_def field.defs
      extendedField.defs translateField_def isLink_def objectGet_def objectPrototypeKeys_def
      storePointer_def edbPointer_def pointerType_def translateEnums_def mapHas_def
      mapPrismaTypeToEdgeDBScalar_def typeMapping_def)

text \<open>
  C2, amended. The run never fails with \<open>MissingRelationTargetError\<close>: the check that throws
  it stands under the condition that the target was found. A field whose declared type is
  a name under which the index of models has nothing, own or inherited, is not a link; it
  is stored as a property when the name is an enum of the target schema or a key of the
  scalar table, and fails with \<open>UnknownScalarTypeError\<close> otherwise.
\<close>

theorem missing_relation_target_unreachable:
  "translateSchema s \<noteq> Inl MissingRelationTargetError
   \<and> (\<forall>A edbSchema edbType F t.
         fieldType F = TName t \<and> objectGet (reduceModels (list s)) t = Absent \<longrightarrow>
           isLink (reduceModels (list s)) F = Absent
           \<and> (mapHas (enums edbSchema) t \<or> map_of typeMapping t \<noteq> None \<longrightarrow>
                (\<exists>p. kind p = Property
                   \<and> translateField (reduceModels (list s)) edbSchema A edbType F
                       = Inr (edbType\<lparr>props := mapSet (props edbType) (fieldName F) p\<rparr>)))
           \<and> (\<not> mapHas (enums edbSchema) t \<and> map_of typeMapping t = None \<longrightarrow>
                translateField (reduceModels (list s)) edbSchema A edbType F
                  = Inl UnknownScalarTypeError))"
proof -
  have never: "translateSchema s \<noteq> Inl MissingRelationTargetError"
    by (simp add: translateSchema_def translateModels_not_missing)
  have field: "isLink (reduceModels (list s)) F = Absent
           \<and> (mapHas (enums edbSchema) t \<or> map_of typeMapping t \<noteq> None \<longrightarrow>
                (\<exists>p. kind p = Property
                   \<and> translateField (reduceModels (list s)) edbSchema A edbType F
                       = Inr (edbType\<lparr>props := mapSet (props edbType) (fieldName F) p\<rparr>)))
           \<and> (\<not> mapHas (enums edbSchema) t \<and> map_of typeMapping t = None \<longrightarrow>
                translateField (reduceModels (list s)) edbSchema A edbType F
                  = Inl UnknownScalarTypeError)"
    if t: "fieldType F = TName t" and a: "objectGet (reduceModels (list s)) t = Absent"
    for A edbSchema edbType F t
  proof (intro conjI impI)
    show nl: "isLink (reduceModels (list s)) F = Absent"
      using t a by (simp add: isLink_def)
    {
      assume "mapHas (enums edbSchema) t \<or> map_of typeMapping t \<noteq> None"
      then have "\<exists>ty. pointerType edbSchema False F = Inr ty"
        using t by (auto simp: pointerType_def mapPrismaTypeToEdgeDBScalar_def)
      then obtain ty where "pointerType edbSchema False F = Inr ty" by blast
      then obtain p where "edbPointer edbSchema False F = Inr p" and "kind p = Property"
        by (simp add: edbPointer_def)
      with nl have "kind p = Property
          \<and> translateField (reduceModels (list s)) edbSchema A edbType F
              = Inr (edbType\<lparr>props := mapSet (props edbType) (fieldName F) p\<rparr>)"
        by (simp add: translateField_def storePointer_def)
      then show "\<exists>p. kind p = Property
          \<and> translateField (reduceModels (list s)) edbSchema A edbType F
              = Inr (edbType\<lparr>props := mapSet (props edbType) (fieldName F) p\<rparr>)"
        by (rule exI)
    }
    {
      assume "\<not> mapHas (enums edbSchema) t \<and> map_of typeMapping t = None"
      with pointerType_scalar[OF t, of edbSchema]
      have "pointerType edbSchema False F = Inl UnknownScalarTypeError" by simp
      from nonlink_step_error[OF nl this]
      show "translateField (reduceModels (list s)) edbSchema A edbType F
          = Inl UnknownScalarTypeError" .
    }
  qed
  from never field show ?thesis by blast
qed

theorem missing_relation_target_unreachable_witness:
  "fieldType (extendField exF_x) = TName ''Foo''
   \<and> objectGet (reduceModels (list exF)) ''Foo'' = Absent
   \<and> \<not> mapHas (enums \<lparr>enums = [], types = []\<rparr>) ''Foo''
   \<and> map_of typeMapping ''Foo'' = None
   \<and> isLink (reduceModels (list exF)) (extendField exF_x) = Absent
   \<and> translateField (reduceModels (list exF)) \<lparr>enums = [], types = []\<rparr>
        (extendModel exF_A) emptyObjectType (extendField exF_x) = Inl UnknownScalarTypeError
   \<and> fieldType (extendField exA_id) = TName ''Int''
   \<and> objectGet (reduceModels (list exA)) ''Int'' = Absent
   \<and> map_of typeMapping ''Int'' \<noteq> None
   \<and> (\<exists>p. kind p = Property
         \<and> translateField (reduceModels (list exA)) exA_out (extendModel exA_User)
              emptyObjectType (extendField exA_id)
             = Inr (emptyObjectType\<lparr>props := mapSet (props emptyObjectType) ''id'' p\<rparr>))"
proof -
  have h1: "fieldType (extendField exF_x) = TName ''Foo''"
    by (simp add: extendField_def field.defs exF_x_def)
  have h2: "objectGet (reduceModels (list exF)) ''Foo'' = Absent"
    by (simp add: exF_def exF_A_def reduceModels_def objectGet_def objectPrototypeKeys_def)
  have h3: "\<not> mapHas (enums \<lparr>enums = [], types = []\<rparr>) ''Foo''"
    and h4: "map_of typeMapping ''Foo'' = None"
    by (simp_all add: mapHas_def typeMapping_def)
  note t = missing_relation_target_unreachable[of exF, THEN conjunct2, rule_format,
      where F = "extendField exF_x" and t = "''Foo''", OF conjI, OF h1 h2]
  from t have c1: "isLink (reduceModels (list exF)) (extendField exF_x) = Absent"
    by (rule conjunct1)
  from t[where edbSchema = "\<lparr>enums = [], types = []\<rparr>" and A = "extendModel exF_A"
      and edbType = emptyObjectType] h3 h4
  have c2: "translateField (reduceModels (list exF)) \<lparr>enums = [], types = []\<rparr>
        (extendModel exF_A) emptyObjectType (extendField exF_x) = Inl UnknownScalarTypeError"
    by blast
  have a1: "fieldType (extendField exA_id) = TName ''Int''"
    by (simp add: extendField_def field.defs exA_id_def)
  have a2: "objectGet (reduceModels (list exA)) ''Int'' = Absent"
    by (simp add: exA_index objectGet_def objectPrototypeKeys_def)
  have a3: "map_of typeMapping ''Int'' \<noteq> None"
    by (simp add: typeMapping_def)
  have a4: "fieldName (extendField exA_id) = ''id''"
    by (simp add: fieldName_extendField exA_id_def)
  note u = missing_relation_target_unreachable[of exA, THEN conjunct2, rule_format,
      where F = "extendField exA_id" and t = "''Int''", OF conjI, OF a1 a2]
  from u[where edbSchema = exA_out and A = "extendModel exA_User" and edbType = emptyObjectType]
    a3 a4
  have c3: "\<exists>p. kind p = Property
         \<and> translateField (reduceModels (list exA)) exA_out (extendModel exA_User)
              emptyObjectType (extendField exA_id)
             = Inr (emptyObjectType\<lparr>props := mapSet (props emptyObjectType) ''id'' p\<rparr>)"
    by simp
  from h1 h2 h3 h4 c1 c2 a1 a2 a3 c3 show ?thesis by (intro conjI)
qed

text \<open>
  C3. A link field \<open>F\<close> of model \<open>A\<close> points at model \<open>B\<close>, and more than one field of
  \<open>B\<close> carries a relation attribute and has declared type \<open>A\<close>. Then translating \<open>F\<close>
  fails with \<open>AmbiguousBacklinkError\<close> whatever has been built so far, the run produces no
  output, and \<open>AmbiguousBacklinkError\<close> is the error of the run when the translation gets
  as far as \<open>F\<close>.
\<close>

theorem ambiguous_backlink_fails:
  assumes "map_of (reduceModels (list s)) a = Some A"
    and "map_of (modelFields A) n = Some F"
    and "fieldType F = TName b"
    and "map_of (reduceModels (list s)) b = Some B"
    and "length (linkPair B A) > 1"
  shows "(\<forall>edbSchema edbType.
            translateField (reduceModels (list s)) edbSchema A edbType F
              = Inl AmbiguousBacklinkError)
       \<and> (\<forall>out. translateSchema s \<noteq> Inr out)
       \<and> (reaches s a n \<longrightarrow> translateSchema s = Inl AmbiguousBacklinkError)"
proof -
  have step: "translateField (reduceModels (list s)) edbSchema A edbType F
                = Inl AmbiguousBacklinkError" for edbSchema edbType
    using assms(3,4,5) by (simp add: translateField_def isLink_def objectGet_def objectPrototypeKeys_def)
  from failure_no_output[OF assms(1,2) step[of "\<lparr>enums = translateEnums (list s), types = []\<rparr>"]]
  have "\<forall>out. translateSchema s \<noteq> Inr out" by auto
  moreover have "reaches s a n \<longrightarrow> translateSchema s = Inl AmbiguousBacklinkError"
    using reaches_failure[OF _ assms(1,2) step[of "\<lparr>enums = translateEnums (list s), types = []\<rparr>"]]
    by simp
  ultimately show ?thesis using step by blast
qed

theorem ambiguous_backlink_fails_witness:
  "map_of (reduceModels (list exE)) ''A'' = Some (extendModel exE_A)
   \<and> map_of (modelFields (extendModel exE_A)) ''f'' = Some (extendField exE_f)
   \<and> fieldType (extendField exE_f) = TName ''B''
   \<and> map_of (reduceModels (list exE)) ''B'' = Some (extendModel exE_B)
   \<and> length (linkPair (extendModel exE_B) (extendModel exE_A)) = 2
   \<and> reaches exE ''A'' ''f''
   \<and> translateSchema exE = Inl AmbiguousBacklinkError"
proof -
  have h1: "map_of (reduceModels (list exE)) ''A'' = Some (extendModel exE_A)"
    by (simp add: exE_models)
  have h2: "map_of (modelFields (extendModel exE_A)) ''f'' = Some (extendField exE_f)"
    by (simp add: modelFields_extendModel reduceProperties_def exE_A_def exE_f_def)
  have h3: "fieldType (extendField exE_f) = TName ''B''"
    by (simp add: extendField_def field.defs exE_f_def)
  have h4: "map_of (reduceModels (list exE)) ''B'' = Some (extendModel exE_B)"
    by (simp add: exE_models)
  have h5: "length (linkPair (extendModel exE_B) (extendModel exE_A)) = 2"
    by (simp add: linkPair_def modelFields_extendModel modelName_extendModel reduceProperties_def
        objectValues_def exE_B_def exE_A_def exE_g1_def exE_g2_def extendField_def field.defs
        extendedField.defs reduceAttributes_def)
  have h6: "reaches exE ''A'' ''f''"
    by (simp add: reaches_def exE_models modelsBefore_def fieldsBefore_def objectValues_def
        modelName_extendModel modelFields_extendModel reduceProperties_def exE_A_def exE_f_def
        fieldName_extendField)
  from h5 have h5': "length (linkPair (extendModel exE_B) (extendModel exE_A)) > 1" by simp
  from ambiguous_backlink_fails[OF h1 h2 h3 h4 h5'] h6
  have "translateSchema exE = Inl AmbiguousBacklinkError" by blast
  with h1 h2 h3 h4 h5 h6 show ?thesis by blast
qed

text \<open>
  C4. In the output of a successful run, the pointer stored for a field, in \<open>props\<close> or in
  \<open>links\<close>, has \<open>multi\<close> true and \<open>required\<close> false when the field is declared as a list,
  whether or not it is declared optional; for a field that is not declared as a list,
  \<open>multi\<close> is false and \<open>required\<close> is the negation of the declared optionality.
\<close>

theorem multiplicity_policy:
  assumes "translateSchema s = Inr out"
    and "map_of (reduceModels (list s)) a = Some A"
    and "map_of (modelFields A) n = Some F"
    and "map_of (types out) a = Some ty"
    and "map_of (props ty) n = Some p \<or> map_of (links ty) n = Some p"
  shows "(truthy (array F) \<longrightarrow> multi p \<and> \<not> required p)
       \<and> (\<not> truthy (array F) \<longrightarrow> \<not> multi p \<and> required p = (\<not> truthy (optional F)))"
proof -
  from assms(1,2,3) have "multi p = truthy (array F)
      \<and> required p = (if truthy (array F) then False else \<not> truthy (optional F))"
  proof (cases rule: field_outcome)
    case (backlink ty' B G)
    with assms(4,5) show ?thesis by simp
  next
    case (link ty' B p' ty0 ty1)
    with assms(4,5) have "p' = p" by auto
    with link(4) show ?thesis by (auto elim!: edbPointer_Inr)
  next
    case (scalar ty' p')
    with assms(4,5) have "p' = p" by auto
    with scalar(3) show ?thesis by (auto elim!: edbPointer_Inr)
  qed
  then show ?thesis by simp
qed

theorem multiplicity_policy_witness:
  "translateSchema exD = Inr exD_out
   \<and> map_of (reduceModels (list exD)) ''Post'' = Some (extendModel exD_Post)
   \<and> map_of (types exD_out) ''Post'' = Some exD_PostType
   \<and> map_of (modelFields (extendModel exD_Post)) ''tags'' = Some (extendField exD_tags)
   \<and> map_of (props exD_PostType) ''tags''
       = Some \<lparr>kind = Property, multi = True, required = False, ptype = ''str'',
               exclusive = False, dflt = None\<rparr>
   \<and> truthy (array (extendField exD_tags)) \<and> \<not> truthy (optional (extendField exD_tags))
   \<and> map_of (modelFields (extendModel exD_Post)) ''note'' = Some (extendField exD_note)
   \<and> map_of (props exD_PostType) ''note''
       = Some \<lparr>kind = Property, multi = False, required = False, ptype = ''str'',
               exclusive = False, dflt = None\<rparr>
   \<and> \<not> truthy (array (extendField exD_note)) \<and> truthy (optional (extendField exD_note))
   \<and> map_of (modelFields (extendModel exD_Post)) ''author'' = Some (extendField exD_author)
   \<and> map_of (links exD_PostType) ''author''
       = Some \<lparr>kind = Link, multi = False, required = True, ptype = ''User'',
               exclusive = False, dflt = None\<rparr>
   \<and> \<not> truthy (array (extendField exD_author)) \<and> \<not> truthy (optional (extendField exD_author))"
proof -
  let ?tags = "\<lparr>kind = Property, multi = True, required = False, ptype = ''str'',
               exclusive = False, dflt = None\<rparr>"
  let ?note = "\<lparr>kind = Property, multi = False, required = False, ptype = ''str'',
               exclusive = False, dflt = None\<rparr>"
  let ?author = "\<lparr>kind = Link, multi = False, required = True, ptype = ''User'',
               exclusive = False, dflt = None\<rparr>"
  have h2: "map_of (reduceModels (list exD)) ''Post'' = Some (extendModel exD_Post)"
    by (simp add: exD_index)
  have h4: "map_of (types exD_out) ''Post'' = Some exD_PostType"
    by (simp add: exD_out_def)
  have t3: "map_of (modelFields (extendModel exD_Post)) ''tags'' = Some (extendField exD_tags)"
    and n3: "map_of (modelFields (extendModel exD_Post)) ''note'' = Some (extendField exD_note)"
    and a3: "map_of (modelFields (extendModel exD_Post)) ''author'' = Some (extendField exD_author)"
    by (simp_all add: exD_Post_fields)
  have t5: "map_of (props exD_PostType) ''tags'' = Some ?tags"
    and n5: "map_of (props exD_PostType) ''note'' = Some ?note"
    and a5: "map_of (links exD_PostType) ''author'' = Some ?author"
    by (simp_all add: exD_PostType_def)
  have fl: "truthy (array (extendField exD_tags))" "\<not> truthy (optional (extendField exD_tags))"
    "\<not> truthy (array (extendField exD_note))" "truthy (optional (extendField exD_note))"
    "\<not> truthy (array (extendField exD_author))" "\<not> truthy (optional (extendField exD_author))"
    by (simp_all add: extendField_def field.defs exD_tags_def exD_note_def exD_author_def)
  from multiplicity_policy[OF exD_translate h2 t3 h4, of ?tags] t5
  have "(truthy (array (extendField exD_tags)) \<longrightarrow> multi ?tags \<and> \<not> required ?tags)" by simp
  moreover from multiplicity_policy[OF exD_translate h2 n3 h4, of ?note] n5
  have "\<not> truthy (array (extendField exD_note)) \<longrightarrow>
      \<not> multi ?note \<and> required ?note = (\<not> truthy (optional (extendField exD_note)))" by simp
  moreover from multiplicity_policy[OF exD_translate h2 a3 h4, of ?author] a5
  have "\<not> truthy (array (extendField exD_author)) \<longrightarrow>
      \<not> multi ?author \<and> required ?author = (\<not> truthy (optional (extendField exD_author)))" by simp
  ultimately show ?thesis using exD_translate h2 h4 t3 n3 a3 t5 n5 a5 fl by (intro conjI)
qed

text \<open>
  C5, as stated, fails in what the renderer leaves out: \<open>linkIds\<close> filters the stored
  pointers only. Model \<open>A\<close> owns a relation that names \<open>c\<close> as its one id field, and \<open>c\<close> is
  itself a backlink of \<open>A\<close>; the name is in \<open>linkIds\<close>, and the rendered body of \<open>A\<close> still
  has the line of \<open>c\<close>.
\<close>

theorem link_id_suppression_counterexample:
  "map_of (modelFields (extendModel exB_A)) ''b'' = Some (extendField exB_b)
   \<and> isLink (reduceModels (list exB)) (extendField exB_b) = Own (extendModel exB_B)
   \<and> linkPair (extendModel exB_B) (extendModel exB_A) = []
   \<and> idFields (extendField exB_b) = Some (VKeyValue ''fields'' (VArray [''c'']))
   \<and> translateSchema exB = Inr exB_out
   \<and> map_of (types exB_out) ''A'' = Some exB_AType
   \<and> ''c'' \<in> linkIds exB_AType
   \<and> renderType (''A'', exB_AType)
       = ''  type A {\<newline>    required link b -> B;\<newline>    link c := .<g[is C];\<newline>  }''"
proof -
  have "map_of (modelFields (extendModel exB_A)) ''b'' = Some (extendField exB_b)"
    by (simp add: modelFields_extendModel reduceProperties_def exB_A_def exB_b_def exB_c_def)
  moreover have "isLink (reduceModels (list exB)) (extendField exB_b) = Own (extendModel exB_B)"
    by (simp add: isLink_def objectGet_def exB_index extendField_def field.defs exB_b_def)
  moreover have "linkPair (extendModel exB_B) (extendModel exB_A) = []"
    by (simp add: linkPair_def modelFields_extendModel reduceProperties_def objectValues_def
        exB_B_def)
  moreover have "idFields (extendField exB_b) = Some (VKeyValue ''fields'' (VArray [''c'']))"
    by (simp add: idFields_def extendField_def field.defs extendedField.defs reduceAttributes_def
        exB_b_def)
  moreover have "map_of (types exB_out) ''A'' = Some exB_AType"
    by (simp add: exB_out_def)
  moreover have "''c'' \<in> linkIds exB_AType"
    by (simp add: exB_AType_def)
  moreover have "renderType (''A'', exB_AType)
       = ''  type A {\<newline>    required link b -> B;\<newline>    link c := .<g[is C];\<newline>  }''"
    by (simp add: renderType_def renderedPointers_def renderPointer_def renderBacklink_def
        pointerAttrs_def exB_AType_def)
  ultimately show ?thesis using exB_translate by (intro conjI)
qed

text \<open>
  C5, amended. Let \<open>F\<close> be a link field on the owning side (no field of the target
  qualifies as the other end) whose relation attribute gives an array of id field names
  under the key \<open>fields\<close>. If the array has exactly one name, then in the output of a
  successful run the name is in \<open>linkIds\<close> of the model's type, and no stored pointer of
  that name is rendered: the text rendered for the type, and so the text rendered for the
  schema, is the text rendered without the stored pointers of that name. A backlink of
  that name is not filtered; when the name is that of a declared field that is not taken
  for a link, that field is stored in \<open>props\<close> and the type has no backlink of the name.
  If the array has more than one name, translating \<open>F\<close> fails with
  \<open>UnsupportedCompositeKeyError\<close>, the run produces no output, and the error is the error of
  the run when the translation gets as far as \<open>F\<close>.
\<close>

theorem link_id_suppression:
  assumes "map_of (reduceModels (list s)) a = Some A"
    and "map_of (modelFields A) n = Some F"
    and "isLink (reduceModels (list s)) F = Own B"
    and "linkPair B A = []"
    and "idFields F = Some (VKeyValue k (VArray ids))"
  shows "(\<forall>i out. ids = [i] \<and> translateSchema s = Inr out \<longrightarrow>
            (\<exists>ty. map_of (types out) a = Some ty
                 \<and> i \<in> linkIds ty
                 \<and> i \<notin> fst ` set (renderedPointers ty)
                 \<and> renderType (a, ty) = renderType (a, withoutPointer i ty)
                 \<and> renderSchemaAst out
                     = renderSchemaAst (out\<lparr>types := mapSet (types out) a (withoutPointer i ty)\<rparr>)
                 \<and> (\<forall>Fi. map_of (modelFields A) i = Some Fi
                          \<and> isLink (reduceModels (list s)) Fi = Absent \<longrightarrow>
                        map_of (props ty) i \<noteq> None \<and> map_of (backlinks ty) i = None)))
       \<and> (length ids > 1 \<longrightarrow>
            (\<forall>edbSchema edbType. translateField (reduceModels (list s)) edbSchema A edbType F
                                  = Inl UnsupportedCompositeKeyError)
            \<and> (\<forall>out. translateSchema s \<noteq> Inr out)
            \<and> (reaches s a n \<longrightarrow> translateSchema s = Inl UnsupportedCompositeKeyError))"
proof (intro conjI allI impI)
  fix i out
  assume h: "ids = [i] \<and> translateSchema s = Inr out"
  then have ok: "translateSchema s = Inr out" and ids: "ids = [i]" by simp_all
  from ok assms(1,2) obtain ty where ty: "map_of (types out) a = Some ty" and i: "i \<in> linkIds ty"
  proof (cases rule: field_outcome)
    case (backlink ty B' G)
    with assms(3,4) show ?thesis by simp
  next
    case (link ty B' p ty0 ty1)
    from link(8) recordLinkIds_array[OF assms(5), of ty0] ids
    have "i \<in> linkIds ty1" by auto
    with link(1,9) that show ?thesis by blast
  next
    case (scalar ty p)
    with assms(3) show ?thesis by simp
  qed
  have np: "i \<notin> fst ` set (renderedPointers ty)"
    using i by (auto simp: renderedPointers_def)
  have rt: "renderType (a, ty) = renderType (a, withoutPointer i ty)"
    by (simp add: renderType_withoutPointer[OF i])
  have "map renderType (mapSet (types out) a (withoutPointer i ty)) = map renderType (types out)"
    by (rule map_mapSet_same[OF ty]) (simp add: renderType_withoutPointer[OF i])
  then have rs: "renderSchemaAst out
      = renderSchemaAst (out\<lparr>types := mapSet (types out) a (withoutPointer i ty)\<rparr>)"
    by (simp add: renderSchemaAst_def)
  have "map_of (props ty) i \<noteq> None \<and> map_of (backlinks ty) i = None"
    if f: "map_of (modelFields A) i = Some Fi \<and> isLink (reduceModels (list s)) Fi = Absent" for Fi
  proof -
    from f have f1: "map_of (modelFields A) i = Some Fi" by simp
    from ok assms(1) f1 show ?thesis
    proof (cases rule: field_outcome)
      case (scalar ty' p)
      with ty show ?thesis by simp
    qed (simp_all add: f)
  qed
  with ty i np rt rs show "\<exists>ty. map_of (types out) a = Some ty
                 \<and> i \<in> linkIds ty
                 \<and> i \<notin> fst ` set (renderedPointers ty)
                 \<and> renderType (a, ty) = renderType (a, withoutPointer i ty)
                 \<and> renderSchemaAst out
                     = renderSchemaAst (out\<lparr>types := mapSet (types out) a (withoutPointer i ty)\<rparr>)
                 \<and> (\<forall>Fi. map_of (modelFields A) i = Some Fi
                          \<and> isLink (reduceModels (list s)) Fi = Absent \<longrightarrow>
                        map_of (props ty) i \<noteq> None \<and> map_of (backlinks ty) i = None)"
    by blast
next
  assume "1 < length ids"
  then have ne: "length ids \<noteq> 1" by simp
  note step = owning_step_composite[OF assms(3,4,5) ne]
  show "\<And>edbSchema edbType. translateField (reduceModels (list s)) edbSchema A edbType F
                                  = Inl UnsupportedCompositeKeyError"
    by (rule step)
  from failure_no_output[OF assms(1,2) step[of "\<lparr>enums = translateEnums (list s), types = []\<rparr>"]]
  show "\<And>out. translateSchema s \<noteq> Inr out" by auto
  assume "reaches s a n"
  from reaches_failure[OF this assms(1,2) step[of "\<lparr>enums = translateEnums (list s), types = []\<rparr>"]]
  show "translateSchema s = Inl UnsupportedCompositeKeyError" by simp
qed

theorem link_id_suppression_witness:
  "map_of (reduceModels (list exD)) ''Post'' = Some (extendModel exD_Post)
   \<and> map_of (modelFields (extendModel exD_Post)) ''author'' = Some (extendField exD_author)
   \<and> isLink (reduceModels (list exD)) (extendField exD_author) = Own (extendModel exD_User)
   \<and> linkPair (extendModel exD_User) (extendModel exD_Post) = []
   \<and> idFields (extendField exD_author) = Some (VKeyValue ''fields'' (VArray [''authorId'']))
   \<and> translateSchema exD = Inr exD_out
   \<and> map_of (modelFields (extendModel exD_Post)) ''authorId'' = Some (extendField exD_authorId)
   \<and> isLink (reduceModels (list exD)) (extendField exD_authorId) = Absent
   \<and> map_of (types exD_out) ''Post'' = Some exD_PostType
   \<and> ''authorId'' \<in> linkIds exD_PostType
   \<and> ''authorId'' \<notin> fst ` set (renderedPointers exD_PostType)
   \<and> map_of (props exD_PostType) ''authorId'' \<noteq> None
   \<and> map_of (backlinks exD_PostType) ''authorId'' = None
   \<and> renderType (''Post'', withoutPointer ''authorId'' exD_PostType)
       = ''  type Post {\<newline>    required property id -> int32;\<newline>    multi property tags -> str;\<newline>    property note -> str;\<newline>    required link author -> User;\<newline>  }''
   \<and> renderType (''Post'', exD_PostType)
       = ''  type Post {\<newline>    required property id -> int32;\<newline>    multi property tags -> str;\<newline>    property note -> str;\<newline>    required link author -> User;\<newline>  }''
   \<and> map_of (reduceModels (list exC)) ''Post'' = Some (extendModel exC_Post)
   \<and> map_of (modelFields (extendModel exC_Post)) ''author'' = Some (extendField exC_author)
   \<and> isLink (reduceModels (list exC)) (extendField exC_author) = Own (extendModel exC_User)
   \<and> linkPair (extendModel exC_User) (extendModel exC_Post) = []
   \<and> idFields (extendField exC_author)
       = Some (VKeyValue ''fields'' (VArray [''firstName'', ''lastName'']))
   \<and> reaches exC ''Post'' ''author''
   \<and> translateSchema exC = Inl UnsupportedCompositeKeyError"
proof -
  let ?text = "''  type Post {\<newline>    required property id -> int32;\<newline>    multi property tags -> str;\<newline>    property note -> str;\<newline>    required link author -> User;\<newline>  }''"
  have d1: "map_of (reduceModels (list exD)) ''Post'' = Some (extendModel exD_Post)"
    by (simp add: exD_index)
  have d2: "map_of (modelFields (extendModel exD_Post)) ''author'' = Some (extendField exD_author)"
    by (simp add: exD_Post_fields)
  have d3: "isLink (reduceModels (list exD)) (extendField exD_author) = Own (extendModel exD_User)"
    by (simp add: isLink_def objectGet_def exD_index extendField_def field.defs exD_author_def)
  note d4 = exD_linkPair_author
  have d5: "idFields (extendField exD_author) = Some (VKeyValue ''fields'' (VArray [''authorId'']))"
    by (simp add: idFields_def extendField_def field.defs extendedField.defs reduceAttributes_def
        exD_author_def)
  have d6: "map_of (modelFields (extendModel exD_Post)) ''authorId'' = Some (extendField exD_authorId)"
    by (simp add: exD_Post_fields)
  have d7: "isLink (reduceModels (list exD)) (extendField exD_authorId) = Absent"
    by (simp add: isLink_def objectGet_def objectPrototypeKeys_def exD_index extendField_def
        field.defs exD_authorId_def)
  have d8: "map_of (types exD_out) ''Post'' = Some exD_PostType"
    by (simp add: exD_out_def)
  have d9: "renderType (''Post'', withoutPointer ''authorId'' exD_PostType) = ?text"
    by (simp add: renderType_def renderedPointers_def renderPointer_def renderBacklink_def
        pointerAttrs_def withoutPointer_def exD_PostType_def)
  from link_id_suppression[OF d1 d2 d3 d4 d5, THEN conjunct1, rule_format,
      of "''authorId''" exD_out, OF conjI[OF refl exD_translate]]
  obtain ty where ty: "map_of (types exD_out) ''Post'' = Some ty"
    and t1: "''authorId'' \<in> linkIds ty"
    and t2: "''authorId'' \<notin> fst ` set (renderedPointers ty)"
    and t3: "renderType (''Post'', ty) = renderType (''Post'', withoutPointer ''authorId'' ty)"
    and t4: "\<forall>Fi. map_of (modelFields (extendModel exD_Post)) ''authorId'' = Some Fi
                \<and> isLink (reduceModels (list exD)) Fi = Absent \<longrightarrow>
              map_of (props ty) ''authorId'' \<noteq> None \<and> map_of (backlinks ty) ''authorId'' = None"
    by blast
  from ty d8 have e: "ty = exD_PostType" by simp
  from t4 d6 d7 have t5: "map_of (props ty) ''authorId'' \<noteq> None
      \<and> map_of (backlinks ty) ''authorId'' = None" by blast
  from t1 t2 t3 t5 e
  have t: "''authorId'' \<in> linkIds exD_PostType
         \<and> ''authorId'' \<notin> fst ` set (renderedPointers exD_PostType)
         \<and> renderType (''Post'', exD_PostType)
             = renderType (''Post'', withoutPointer ''authorId'' exD_PostType)
         \<and> map_of (props exD_PostType) ''authorId'' \<noteq> None
         \<and> map_of (backlinks exD_PostType) ''authorId'' = None"
    by blast
  with d9 have d10: "renderType (''Post'', exD_PostType) = ?text" by simp
  have c1: "map_of (reduceModels (list exC)) ''Post'' = Some (extendModel exC_Post)"
    by (simp add: exC_index)
  have c2: "map_of (modelFields (extendModel exC_Post)) ''author'' = Some (extendField exC_author)"
    by (simp add: modelFields_extendModel reduceProperties_def exC_Post_def exC_author_def)
  have c3: "isLink (reduceModels (list exC)) (extendField exC_author) = Own (extendModel exC_User)"
    by (simp add: isLink_def objectGet_def exC_index extendField_def field.defs exC_author_def)
  have c4: "linkPair (extendModel exC_User) (extendModel exC_Post) = []"
    by (simp add: linkPair_def modelFields_extendModel reduceProperties_def objectValues_def
        exC_User_def)
  have c5: "idFields (extendField exC_author)
       = Some (VKeyValue ''fields'' (VArray [''firstName'', ''lastName'']))"
    by (simp add: idFields_def extendField_def field.defs extendedField.defs reduceAttributes_def
        exC_author_def)
  have c6: "reaches exC ''Post'' ''author''"
    by (simp add: reaches_def modelsBefore_def fieldsBefore_def exC_index objectValues_def
        modelName_extendModel modelFields_extendModel reduceProperties_def exC_Post_def
        exC_author_def fieldName_extendField)
  from link_id_suppression[OF c1 c2 c3 c4 c5] c6
  have c7: "translateSchema exC = Inl UnsupportedCompositeKeyError" by simp
  from t have t': "''authorId'' \<in> linkIds exD_PostType"
    "''authorId'' \<notin> fst ` set (renderedPointers exD_PostType)"
    "map_of (props exD_PostType) ''authorId'' \<noteq> None"
    "map_of (backlinks exD_PostType) ''authorId'' = None"
    by blast+
  from d1 d2 d3 d4 d5 exD_translate d6 d7 d8 t' d9 d10 c1 c2 c3 c4 c5 c6 c7 show ?thesis
    by (intro conjI)
qed

text \<open>
  C6. The default of a field is decided by the first argument of its \<open>default\<close> attribute,
  the cases read in order. A string for a field whose type is an enum of the target schema
  gives the enum's name, a dot and the string. Otherwise a string for a field of type
  \<open>String\<close> gives the string quoted as \<open>JSON.stringify\<close> quotes it: between double
  quotes, unchanged when it holds plain characters only, and with a backslash before each
  of its own double quotes when it is a literal that comes with its quotes, as the parser
  delivers it. A string for a field of type \<open>Boolean\<close> gives the string itself. A call of
  \<open>now\<close> gives \<^verbatim>\<open>datetime_current()\<close> and a call of \<open>uuid\<close> gives \<^verbatim>\<open>uuid_generate_v4()\<close>.
  Everything else gives no default: no \<open>default\<close> argument, a string for any other type,
  a call of any other name, and a value that is neither a string nor a call. The function
  is total, so no case raises an error.
\<close>

theorem default_value_translation:
  "(defaultArgument field = None \<longrightarrow> getFieldDefault schema field = None)
   \<and> (\<forall>d v t. defaultArgument field = Some d \<and> argValue d = VString v
          \<and> fieldType field = TName t \<and> mapHas (enums schema) t \<longrightarrow>
          getFieldDefault schema field = Some (t @ ''.'' @ v))
   \<and> (\<forall>d v. defaultArgument field = Some d \<and> argValue d = VString v
          \<and> fieldType field = TName ''String'' \<and> \<not> mapHas (enums schema) ''String'' \<longrightarrow>
          getFieldDefault schema field = Some (JSON_stringify v))
   \<and> (\<forall>d v. defaultArgument field = Some d \<and> argValue d = VString v
          \<and> fieldType field = TName ''String'' \<and> \<not> mapHas (enums schema) ''String''
          \<and> (\<forall>c\<in>set v. plainChar c) \<longrightarrow>
          getFieldDefault schema field = Some ([CHR 0x22] @ v @ [CHR 0x22]))
   \<and> (\<forall>d w. defaultArgument field = Some d
          \<and> argValue d = VString ([CHR 0x22] @ w @ [CHR 0x22])
          \<and> fieldType field = TName ''String'' \<and> \<not> mapHas (enums schema) ''String''
          \<and> (\<forall>c\<in>set w. plainChar c) \<longrightarrow>
          getFieldDefault schema field
            = Some ([CHR 0x22, CHR 0x5C, CHR 0x22] @ w @ [CHR 0x5C, CHR 0x22, CHR 0x22]))
   \<and> (\<forall>d v. defaultArgument field = Some d \<and> argValue d = VString v
          \<and> fieldType field = TName ''Boolean'' \<and> \<not> mapHas (enums schema) ''Boolean'' \<longrightarrow>
          getFieldDefault schema field = Some v)
   \<and> (\<forall>d v t. defaultArgument field = Some d \<and> argValue d = VString v
          \<and> fieldType field = TName t \<and> \<not> mapHas (enums schema) t
          \<and> t \<noteq> ''String'' \<and> t \<noteq> ''Boolean'' \<longrightarrow>
          getFieldDefault schema field = None)
   \<and> (\<forall>d v x ps. defaultArgument field = Some d \<and> argValue d = VString v
          \<and> fieldType field = TFunc x ps \<longrightarrow>
          getFieldDefault schema field = None)
   \<and> (\<forall>d ps. defaultArgument field = Some d \<and> argValue d = VFunction ''now'' ps \<longrightarrow>
          getFieldDefault schema field = Some ''datetime_current()'')
   \<and> (\<forall>d ps. defaultArgument field = Some d \<and> argValue d = VFunction ''uuid'' ps \<longrightarrow>
          getFieldDefault schema field = Some ''uuid_generate_v4()'')
   \<and> (\<forall>d name ps. defaultArgument field = Some d \<and> argValue d = VFunction name ps
          \<and> name \<noteq> ''now'' \<and> name \<noteq> ''uuid'' \<longrightarrow>
          getFieldDefault schema field = None)
   \<and> (\<forall>d. defaultArgument field = Some d
          \<and> (\<forall>v. argValue d \<noteq> VString v) \<and> (\<forall>name ps. argValue d \<noteq> VFunction name ps) \<longrightarrow>
          getFieldDefault schema field = None)"
proof -
  have none: "getFieldDefault schema field = None" if "defaultArgument field = None"
    using that by (simp add: getFieldDefault_def)
  have str: "getFieldDefault schema field =
      (case fieldType field of
         TName t \<Rightarrow>
           if mapHas (enums schema) t then Some (t @ ''.'' @ v)
           else if t = ''String'' then Some (JSON_stringify v)
           else if t = ''Boolean'' then Some v
           else None
       | TFunc _ _ \<Rightarrow> None)"
    if "defaultArgument field = Some d" "argValue d = VString v" for d v
    using that by (simp add: getFieldDefault_def)
  have call: "getFieldDefault schema field =
      (if name = ''now'' then Some ''datetime_current()''
       else if name = ''uuid'' then Some ''uuid_generate_v4()''
       else None)"
    if "defaultArgument field = Some d" "argValue d = VFunction name ps" for d name ps
    using that by (simp add: getFieldDefault_def)
  have other: "getFieldDefault schema field = None"
    if "defaultArgument field = Some d" "\<forall>v. argValue d \<noteq> VString v"
      "\<forall>name ps. argValue d \<noteq> VFunction name ps" for d
    using that by (cases "argValue d") (simp_all add: getFieldDefault_def)
  show ?thesis
  proof (intro conjI allI impI)
    fix d w
    assume "defaultArgument field = Some d
          \<and> argValue d = VString ([CHR 0x22] @ w @ [CHR 0x22])
          \<and> fieldType field = TName ''String'' \<and> \<not> mapHas (enums schema) ''String''
          \<and> (\<forall>c\<in>set w. plainChar c)"
    then show "getFieldDefault schema field
            = Some ([CHR 0x22, CHR 0x5C, CHR 0x22] @ w @ [CHR 0x5C, CHR 0x22, CHR 0x22])"
      using str[of d "[CHR 0x22] @ w @ [CHR 0x22]"] JSON_stringify_literal[of w] by simp
  next
    fix d v
    assume "defaultArgument field = Some d \<and> argValue d = VString v
          \<and> fieldType field = TName ''String'' \<and> \<not> mapHas (enums schema) ''String''
          \<and> (\<forall>c\<in>set v. plainChar c)"
    then show "getFieldDefault schema field = Some ([CHR 0x22] @ v @ [CHR 0x22])"
      using str[of d v] JSON_stringify_plain[of v] by simp
  qed (simp_all add: none str call other)
qed

theorem default_value_translation_witness:
  "getFieldDefault exA_out
        (extendField exA_id)
       = None
   \<and> getFieldDefault exA_out
        (defaultField ''role'' (TName ''Role'') (VString ''USER''))
       = Some ''Role.USER''
   \<and> getFieldDefault exA_out
        (defaultField ''title'' (TName ''String'') (VString [CHR ''a'', CHR 0x5C, CHR 0x0A, CHR 0x01, CHR 0x22]))
       = Some [CHR 0x22, CHR ''a'', CHR 0x5C, CHR 0x5C, CHR 0x5C, CHR ''n'', CHR 0x5C, CHR ''u'',
               CHR ''0'', CHR ''0'', CHR ''0'', CHR ''1'', CHR 0x5C, CHR 0x22, CHR 0x22]
   \<and> getFieldDefault exA_out
        (defaultField ''title'' (TName ''String'') (VString ''a b''))
       = Some [CHR 0x22, CHR ''a'', CHR '' '', CHR ''b'', CHR 0x22]
   \<and> getFieldDefault exA_out
        (defaultField ''title'' (TName ''String'') (VString [CHR 0x22, CHR ''h'', CHR ''i'', CHR 0x22]))
       = Some [CHR 0x22, CHR 0x5C, CHR 0x22, CHR ''h'', CHR ''i'', CHR 0x5C, CHR 0x22, CHR 0x22]
   \<and> getFieldDefault exA_out
        (defaultField ''published'' (TName ''Boolean'') (VString ''false''))
       = Some ''false''
   \<and> getFieldDefault exA_out
        (defaultField ''count'' (TName ''Int'') (VString ''7''))
       = None
   \<and> getFieldDefault exA_out
        (defaultField ''shape'' (TFunc ''Unsupported'' (Some [VString ''circle''])) (VString ''x''))
       = None
   \<and> getFieldDefault exA_out
        (defaultField ''createdAt'' (TName ''DateTime'') (VFunction ''now'' None))
       = Some ''datetime_current()''
   \<and> getFieldDefault exA_out
        (defaultField ''key'' (TName ''String'') (VFunction ''uuid'' (Some [])))
       = Some ''uuid_generate_v4()''
   \<and> getFieldDefault exA_out
        (defaultField ''id'' (TName ''Int'') (VFunction ''autoincrement'' None))
       = None
   \<and> getFieldDefault exA_out
        (defaultField ''count'' (TName ''Int'') (VNumber 7))
       = None"
proof -
  let ?s = exA_out
  note t = default_value_translation
  note e = defaultField_simps exA_out_enums
  have c1: "getFieldDefault ?s
        (extendField exA_id)
       = None"
    using t[THEN conjunct1, rule_format,
        where field = "extendField exA_id"
          and schema = ?s]
    by (simp add: e exA_id_no_default)
  have c2: "getFieldDefault ?s
        (defaultField ''role'' (TName ''Role'') (VString ''USER''))
       = Some ''Role.USER''"
    using t[THEN conjunct2, THEN conjunct1, rule_format,
        where field = "defaultField ''role'' (TName ''Role'') (VString ''USER'')"
          and schema = ?s
          and d = "AttributeArgument (VString ''USER'')"
          and v = "''USER''"
          and t = "''Role''"]
    by (simp add: e)
  have c3: "getFieldDefault ?s
        (defaultField ''title'' (TName ''String'') (VString [CHR ''a'', CHR 0x5C, CHR 0x0A, CHR 0x01, CHR 0x22]))
       = Some [CHR 0x22, CHR ''a'', CHR 0x5C, CHR 0x5C, CHR 0x5C, CHR ''n'', CHR 0x5C, CHR ''u'',
               CHR ''0'', CHR ''0'', CHR ''0'', CHR ''1'', CHR 0x5C, CHR 0x22, CHR 0x22]"
    using t[THEN conjunct2, THEN conjunct2, THEN conjunct1, rule_format,
        where field = "defaultField ''title'' (TName ''String'') (VString [CHR ''a'', CHR 0x5C, CHR 0x0A, CHR 0x01, CHR 0x22])"
          and schema = ?s
          and d = "AttributeArgument (VString [CHR ''a'', CHR 0x5C, CHR 0x0A, CHR 0x01, CHR 0x22])"
          and v = "[CHR ''a'', CHR 0x5C, CHR 0x0A, CHR 0x01, CHR 0x22]"]
    by (simp add: e JSON_stringify_def quoteJSONChar_def hexDigit_def)
  have c4: "getFieldDefault ?s
        (defaultField ''title'' (TName ''String'') (VString ''a b''))
       = Some [CHR 0x22, CHR ''a'', CHR '' '', CHR ''b'', CHR 0x22]"
    using t[THEN conjunct2, THEN conjunct2, THEN conjunct2, THEN conjunct1, rule_format,
        where field = "defaultField ''title'' (TName ''String'') (VString ''a b'')"
          and schema = ?s
          and d = "AttributeArgument (VString ''a b'')"
          and v = "''a b''"]
    by (simp add: e plainChar_def)
  have c5: "getFieldDefault ?s
        (defaultField ''title'' (TName ''String'') (VString [CHR 0x22, CHR ''h'', CHR ''i'', CHR 0x22]))
       = Some [CHR 0x22, CHR 0x5C, CHR 0x22, CHR ''h'', CHR ''i'', CHR 0x5C, CHR 0x22, CHR 0x22]"
    using t[THEN conjunct2, THEN conjunct2, THEN conjunct2, THEN conjunct2, THEN conjunct1, rule_format,
        where field = "defaultField ''title'' (TName ''String'') (VString [CHR 0x22, CHR ''h'', CHR ''i'', CHR 0x22])"
          and schema = ?s
          and d = "AttributeArgument (VString [CHR 0x22, CHR ''h'', CHR ''i'', CHR 0x22])"
          and w = "''hi''"]
    by (simp add: e plainChar_def)
  have c6: "getFieldDefault ?s
        (defaultField ''published'' (TName ''Boolean'') (VString ''false''))
       = Some ''false''"
    using t[THEN conjunct2, THEN conjunct2, THEN conjunct2, THEN conjunct2, THEN conjunct2, THEN conjunct1, rule_format,
        where field = "defaultField ''published'' (TName ''Boolean'') (VString ''false'')"
          and schema = ?s
          and d = "AttributeArgument (VString ''false'')"
          and v = "''false''"]
    by (simp add: e)
  have c7: "getFieldDefault ?s
        (defaultField ''count'' (TName ''Int'') (VString ''7''))
       = None"
    using t[THEN conjunct2, THEN conjunct2, THEN conjunct2, THEN conjunct2, THEN conjunct2, THEN conjunct2, THEN conjunct1, rule_format,
        where field = "defaultField ''count'' (TName ''Int'') (VString ''7'')"
          and schema = ?s
          and d = "AttributeArgument (VString ''7'')"
          and v = "''7''"
          and t = "''Int''"]
    by (simp add: e)
  have c8: "getFieldDefault ?s
        (defaultField ''shape'' (TFunc ''Unsupported'' (Some [VString ''circle''])) (VString ''x''))
       = None"
    using t[THEN conjunct2, THEN conjunct2, THEN conjunct2, THEN conjunct2, THEN conjunct2, THEN conjunct2, THEN conjunct2, THEN conjunct1, rule_format,
        where field = "defaultField ''shape'' (TFunc ''Unsupported'' (Some [VString ''circle''])) (VString ''x'')"
          and schema = ?s
          and d = "AttributeArgument (VString ''x'')"
          and v = "''x''"
          and x = "''Unsupported''"
          and ps = "Some [VString ''circle'']"]
    by (simp add: e)
  have c9: "getFieldDefault ?s
        (defaultField ''createdAt'' (TName ''DateTime'') (VFunction ''now'' None))
       = Some ''datetime_current()''"
    using t[THEN conjunct2, THEN conjunct2, THEN conjunct2, THEN conjunct2, THEN conjunct2, THEN conjunct2, THEN conjunct2, THEN conjunct2, THEN conjunct1, rule_format,
        where field = "defaultField ''createdAt'' (TName ''DateTime'') (VFunction ''now'' None)"
          and schema = ?s
          and d = "AttributeArgument (VFunction ''now'' None)"
          and ps = "None"]
    by (simp add: e)
  have c10: "getFieldDefault ?s
        (defaultField ''key'' (TName ''String'') (VFunction ''uuid'' (Some [])))
       = Some ''uuid_generate_v4()''"
    using t[THEN conjunct2, THEN conjunct2, THEN conjunct2, THEN conjunct2, THEN conjunct2, THEN conjunct2, THEN conjunct2, THEN conjunct2, THEN conjunct2, THEN conjunct1, rule_format,
        where field = "defaultField ''key'' (TName ''String'') (VFunction ''uuid'' (Some []))"
          and schema = ?s
          and d = "AttributeArgument (VFunction ''uuid'' (Some []))"
          and ps = "Some []"]
    by (simp add: e)
  have c11: "getFieldDefault ?s
        (defaultField ''id'' (TName ''Int'') (VFunction ''autoincrement'' None))
       = None"
    using t[THEN conjunct2, THEN conjunct2, THEN conjunct2, THEN conjunct2, THEN conjunct2, THEN conjunct2, THEN conjunct2, THEN conjunct2, THEN conjunct2, THEN conjunct2, THEN conjunct1, rule_format,
        where field = "defaultField ''id'' (TName ''Int'') (VFunction ''autoincrement'' None)"
          and schema = ?s
          and d = "AttributeArgument (VFunction ''autoincrement'' None)"
          and name = "''autoincrement''"
          and ps = "None"]
    by (simp add: e)
  have c12: "getFieldDefault ?s
        (defaultField ''count'' (TName ''Int'') (VNumber 7))
       = None"
    using t[THEN conjunct2, THEN conjunct2, THEN conjunct2, THEN conjunct2, THEN conjunct2, THEN conjunct2, THEN conjunct2, THEN conjunct2, THEN conjunct2, THEN conjunct2, THEN conjunct2, rule_format,
        where field = "defaultField ''count'' (TName ''Int'') (VNumber 7)"
          and schema = ?s
          and d = "AttributeArgument (VNumber 7)"]
    by (simp add: e)
  from c1 c2 c3 c4 c5 c6 c7 c8 c9 c10 c11 c12 show ?thesis by (intro conjI)
qed




text \<open>
  C8, as stated, fails: a relation may name an id field that the model does not declare.
  The run succeeds, the name is in \<open>linkIds\<close>, and it is no name of \<open>props\<close>.
\<close>

theorem link_ids_origin_counterexample:
  "translateSchema exH = Inr exH_out
   \<and> map_of (types exH_out) ''Post'' = Some exH_PostType
   \<and> ''authorId'' \<in> linkIds exH_PostType
   \<and> ''authorId'' \<notin> fst ` set (props exH_PostType)"
  by (simp add: exH_translate exH_out_def exH_PostType_def)

text \<open>
  C8, amended. In the output of a successful run, every name in \<open>linkIds\<close> of a model's
  type is the one id field name that the relation attribute of an owning-side link field
  of that model gives under the key \<open>fields\<close>. Nothing checks that the name is a declared
  field: it is a name of \<open>props\<close> exactly when the model declares a field of that name
  that is not a link.
\<close>

theorem link_ids_origin:
  assumes "translateSchema s = Inr out"
    and "map_of (reduceModels (list s)) a = Some A"
    and "map_of (types out) a = Some ty"
    and "i \<in> linkIds ty"
  shows "(\<exists>F B. F \<in> set (objectValues (modelFields A))
              \<and> isLink (reduceModels (list s)) F = Own B \<and> linkPair B A = []
              \<and> idFields F = Some (VKeyValue ''fields'' (VArray [i])))
       \<and> (i \<in> fst ` set (props ty)
            \<longleftrightarrow> (\<exists>Fi. map_of (modelFields A) i = Some Fi
                      \<and> isLink (reduceModels (list s)) Fi = Absent))"
proof -
  let ?sch0 = "\<lparr>enums = translateEnums (list s), types = []\<rparr>"
  from success_type[OF assms(1,2)] assms(3)
  have f: "translateFields (reduceModels (list s)) ?sch0 A emptyObjectType
             (objectValues (modelFields A)) = Inr ty" by simp
  from translateFields_linkIds_origin[OF f assms(4)]
  have one: "\<exists>F B. F \<in> set (objectValues (modelFields A))
              \<and> isLink (reduceModels (list s)) F = Own B \<and> linkPair B A = []
              \<and> idFields F = Some (VKeyValue ''fields'' (VArray [i]))"
    by (auto simp: emptyObjectType_def)
  note k = index_model(3)[OF assms(2)]
  have "i \<in> fst ` set (props ty)
      \<longleftrightarrow> (\<exists>F. F \<in> set (objectValues (modelFields A)) \<and> fieldName F = i
               \<and> isLink (reduceModels (list s)) F = Absent)"
    using translateFields_props_keys[OF f] by (auto simp: emptyObjectType_def)
  also have "\<dots> \<longleftrightarrow> (\<exists>Fi. map_of (modelFields A) i = Some Fi
                      \<and> isLink (reduceModels (list s)) Fi = Absent)"
    using keyed_lookup[OF k] keyed_member[OF k] by blast
  finally show ?thesis using one by simp
qed

theorem link_ids_origin_witness:
  "translateSchema exD = Inr exD_out
   \<and> map_of (reduceModels (list exD)) ''Post'' = Some (extendModel exD_Post)
   \<and> map_of (types exD_out) ''Post'' = Some exD_PostType
   \<and> ''authorId'' \<in> linkIds exD_PostType
   \<and> (\<exists>F B. F \<in> set (objectValues (modelFields (extendModel exD_Post)))
              \<and> isLink (reduceModels (list exD)) F = Own B
              \<and> linkPair B (extendModel exD_Post) = []
              \<and> idFields F = Some (VKeyValue ''fields'' (VArray [''authorId''])))
   \<and> map_of (modelFields (extendModel exD_Post)) ''authorId'' = Some (extendField exD_authorId)
   \<and> isLink (reduceModels (list exD)) (extendField exD_authorId) = Absent
   \<and> ''authorId'' \<in> fst ` set (props exD_PostType)"
proof -
  have h2: "map_of (reduceModels (list exD)) ''Post'' = Some (extendModel exD_Post)"
    by (simp add: exD_index)
  have h3: "map_of (types exD_out) ''Post'' = Some exD_PostType"
    by (simp add: exD_out_def)
  have h4: "''authorId'' \<in> linkIds exD_PostType"
    by (simp add: exD_PostType_def)
  have h5: "map_of (modelFields (extendModel exD_Post)) ''authorId'' = Some (extendField exD_authorId)"
    by (simp add: exD_Post_fields)
  have h6: "isLink (reduceModels (list exD)) (extendField exD_authorId) = Absent"
    by (simp add: isLink_def objectGet_def objectPrototypeKeys_def exD_index extendField_def field.defs exD_authorId_def)
  note t = link_ids_origin[OF exD_translate h2 h3 h4]
  from t have c1: "\<exists>F B. F \<in> set (objectValues (modelFields (extendModel exD_Post)))
              \<and> isLink (reduceModels (list exD)) F = Own B
              \<and> linkPair B (extendModel exD_Post) = []
              \<and> idFields F = Some (VKeyValue ''fields'' (VArray [''authorId'']))" by blast
  from t h5 h6 have c2: "''authorId'' \<in> fst ` set (props exD_PostType)" by blast
  from exD_translate h2 h3 h4 c1 h5 h6 c2 show ?thesis by (intro conjI)
qed

text \<open>
  C9. Let \<open>E\<close> be an enum declaration of the schema that no later enum declaration repeats
  by name. In a successful run the enum of that name holds the names of the enumerators of
  \<open>E\<close> in the order of their declaration, the line rendered for it lists them in that
  order, separated by a comma and a space, and the rendered text contains that line.
\<close>

theorem enum_order_rendered:
  assumes "translateSchema s = Inr out"
    and "enumBlocks (list s) = es1 @ E # es2"
    and "enumName E \<notin> enumName ` set es2"
  shows "map_of (enums out) (enumName E)
           = Some \<lparr>enumValues = map enumeratorName (enumeratorItems (enumerators E))\<rparr>
       \<and> ''  scalar type '' @ enumName E @ '' extending enum<''
           @ join '', '' (map enumeratorName (enumeratorItems (enumerators E))) @ ''>;''
           \<in> set (map renderEnum (enums out))
       \<and> (\<exists>pre post. renderSchemaAst out =
             pre @ (''  scalar type '' @ enumName E @ '' extending enum<''
                    @ join '', '' (map enumeratorName (enumeratorItems (enumerators E))) @ ''>;'')
             @ post)"
proof -
  let ?vals = "map enumeratorName (enumeratorItems (enumerators E))"
  let ?line = "''  scalar type '' @ enumName E @ '' extending enum<'' @ join '', '' ?vals @ ''>;''"
  have m: "map_of (enums out) (enumName E) = Some \<lparr>enumValues = ?vals\<rparr>"
    unfolding success_enums[OF assms(1)] translateEnums_def assms(2)
    by (rule map_of_foldl_mapSet_last[OF assms(3)])
  then have "(enumName E, \<lparr>enumValues = ?vals\<rparr>) \<in> set (enums out)"
    by (rule map_of_SomeD)
  then have "renderEnum (enumName E, \<lparr>enumValues = ?vals\<rparr>) \<in> set (map renderEnum (enums out))"
    by (simp add: image_iff rev_bexI)
  then have l: "?line \<in> set (map renderEnum (enums out))"
    by (simp add: renderEnum_def)
  then have "?line \<in> set (map renderEnum (enums out) @ map renderType (types out))" by simp
  from join_member[OF this, of "''\<newline>\<newline>''"] obtain pre post where
    "join ''\<newline>\<newline>'' (map renderEnum (enums out) @ map renderType (types out)) = pre @ ?line @ post"
    by blast
  then have "renderSchemaAst out = (''module default {\<newline>'' @ pre) @ ?line @ (post @ ''\<newline>}\<newline>'')"
    by (simp add: renderSchemaAst_def)
  then have "\<exists>pre post. renderSchemaAst out = pre @ ?line @ post" by blast
  with m l show ?thesis by blast
qed

theorem enum_order_rendered_witness:
  "translateSchema exA = Inr exA_out
   \<and> enumBlocks (list exA) = [] @ exA_Role # []
   \<and> enumName exA_Role \<notin> enumName ` set []
   \<and> map_of (enums exA_out) ''Role'' = Some \<lparr>enumValues = [''USER'', ''ADMIN'']\<rparr>
   \<and> ''  scalar type Role extending enum<USER, ADMIN>;'' \<in> set (map renderEnum (enums exA_out))
   \<and> (\<exists>pre post. renderSchemaAst exA_out =
         pre @ ''  scalar type Role extending enum<USER, ADMIN>;'' @ post)"
proof -
  have h2: "enumBlocks (list exA) = [] @ exA_Role # []" by (simp add: exA_def)
  have h3: "enumName exA_Role \<notin> enumName ` set []" by simp
  have v: "enumName exA_Role = ''Role''"
    "map enumeratorName (enumeratorItems (enumerators exA_Role)) = [''USER'', ''ADMIN'']"
    by (simp_all add: exA_Role_def)
  from enum_order_rendered[OF exA_translate h2 h3]
  have "map_of (enums exA_out) ''Role'' = Some \<lparr>enumValues = [''USER'', ''ADMIN'']\<rparr>
   \<and> ''  scalar type Role extending enum<USER, ADMIN>;'' \<in> set (map renderEnum (enums exA_out))
   \<and> (\<exists>pre post. renderSchemaAst exA_out =
         pre @ ''  scalar type Role extending enum<USER, ADMIN>;'' @ post)"
    unfolding v by simp
  with exA_translate h2 h3 show ?thesis by (intro conjI) simp_all
qed

text \<open>
  C10 fails for an enum whose name is a property that every object inherits. The schema
  declares the enum \<open>toString\<close> and a model \<open>M\<close> with one field \<open>f\<close> of that type; no model
  has the name. The look-up of the name in the index of models finds the inherited
  property, the field is taken for a link, and reading the fields of its target ends the
  run in a run-time error, where the claim has a property of type \<open>toString\<close>.
\<close>

theorem enum_named_as_inherited_property_fails:
  "enumBlocks (list exT) = [exT_enum]
   \<and> enumName exT_enum = ''toString''
   \<and> map_of (reduceModels (list exT)) ''M'' = Some (extendModel exT_M)
   \<and> map_of (modelFields (extendModel exT_M)) ''f'' = Some (extendField exT_f)
   \<and> fieldType (extendField exT_f) = TName ''toString''
   \<and> map_of (reduceModels (list exT)) ''toString'' = None
   \<and> isLink (reduceModels (list exT)) (extendField exT_f) = Inherited
   \<and> translateSchema exT = Inl JsTypeError"
  by (simp add: exT_def exT_M_def exT_f_def exT_enum_def eval_index eval_translate
      translateModels.simps translateFields.simps)

end
